theory Spec2Isabelle
  imports Main
begin

section \<open>The delayed job scheduler of the dilemma backend\<close>

text \<open>
  The development embeds \<^verbatim>\<open>src/services/scheduler.service.ts\<close> (class
  \<^verbatim>\<open>SchedulerService\<close>), the \<^verbatim>\<open>CacheService\<close> helpers of
  \<^verbatim>\<open>config/database.ts\<close> and \<^verbatim>\<open>StatsService.getGlobalStats\<close>.
  Times are milliseconds since the epoch, as \<^verbatim>\<open>Date.now()\<close> and
  \<^verbatim>\<open>Date.getTime()\<close> give them, modelled as \<^typ>\<open>int\<close>. One call of a scheduler method
  is taken to happen at one instant \<open>now\<close>: the value \<^verbatim>\<open>Date.now()\<close> returns inside the
  method is also the instant at which the queue stamps the job.
\<close>

subsection \<open>Jobs and the job store\<close>

datatype job_state = Pending | Ready | Active | Completed | Failed

text \<open>
  A job as section 3 of the specification lists it. \<open>name\<close> is the job type as
  the source passes it to \<^verbatim>\<open>queue.add\<close> (\<^verbatim>\<open>'publish'\<close>, \<^verbatim>\<open>'reveal'\<close>), \<open>dilemmaId\<close> is the
  payload \<^verbatim>\<open>{ dilemmaId }\<close>.
\<close>

record job =
  jobId :: string
  name :: string
  dilemmaId :: string
  notBefore :: int
  state :: job_state
  attempts :: nat

text \<open>The store is a list of jobs, so that a duplicate entry for one id is expressible.\<close>

type_synonym job_store = "job list"

definition live :: "job \<Rightarrow> bool" where
  "live j = (state j \<noteq> Completed \<and> state j \<noteq> Failed)"

definition jobs_with_id :: "string \<Rightarrow> job_store \<Rightarrow> job list" where
  "jobs_with_id k q = filter (\<lambda>j. jobId j = k) q"

text \<open>
  Modelled from the spec: \<^verbatim>\<open>JobStore.enqueue(job, delay)\<close>, the operation behind
  \<^verbatim>\<open>this.queue.add(name, data, {delay, jobId})\<close>; the queue library that implements it is
  not under \<^verbatim>\<open>src/\<close>. Section 4.1: "inserts or replaces the job keyed by id; sets
  \<open>notBefore = now + delay\<close>; \<open>state = Pending\<close> if \<open>delay > 0\<close> else rejected
  (returns an error/no-op)"; section 3: \<open>attempts\<close> "starts at 0".
\<close>

definition queue_add :: "int \<Rightarrow> string \<Rightarrow> string \<Rightarrow> int \<Rightarrow> string \<Rightarrow> job_store \<Rightarrow> job_store" where
  "queue_add now nm did delay jid q =
     (if delay > 0
      then filter (\<lambda>j. jobId j \<noteq> jid) q @
           [\<lparr>jobId = jid, name = nm, dilemmaId = did, notBefore = now + delay,
             state = Pending, attempts = 0\<rparr>]
      else q)"

text \<open>
  Modelled from the spec: the lookup behind \<^verbatim>\<open>this.queue.getJob(id)\<close>; the queue library
  is not under \<^verbatim>\<open>src/\<close>. Section 2: the store is "keyed by a caller-supplied idempotency
  key", so the lookup gives the job stored under the id, or \<^verbatim>\<open>null\<close>.
\<close>

definition queue_getJob :: "string \<Rightarrow> job_store \<Rightarrow> job option" where
  "queue_getJob jid q = find (\<lambda>j. jobId j = jid) q"

text \<open>
  Modelled from the spec: \<^verbatim>\<open>JobStore.remove(jobId)\<close>, the operation behind
  \<^verbatim>\<open>job.remove()\<close>; the queue library is not under \<^verbatim>\<open>src/\<close>. Section 4.1: "deletes a
  job in any state (used for cancellation); no-op if absent".
\<close>

definition job_remove :: "job \<Rightarrow> job_store \<Rightarrow> job_store" where
  "job_remove j q = filter (\<lambda>x. jobId x \<noteq> jobId j) q"

subsection \<open>Retry policy and the worker-side transitions\<close>

datatype decision = Retry int | GiveUp

text \<open>\<^verbatim>\<open>defaultJobOptions\<close>: \<^verbatim>\<open>attempts: 3\<close> and \<^verbatim>\<open>backoff: { type: 'exponential', delay: 2000 }\<close>.\<close>

definition maxAttempts :: nat where
  "maxAttempts = 3"

definition backoffDelay :: int where
  "backoffDelay = 2000"

text \<open>
  Modelled from the spec: the \<^verbatim>\<open>RetryPolicy\<close> of section 4.2; the source only configures
  it (the two constants above), the queue library that evaluates it is not under
  \<^verbatim>\<open>src/\<close>. "If \<open>attempts < maxAttempts\<close>: next delay = \<open>base * 2^(attempts-1)\<close> with
  \<open>base = 2s\<close>; if \<open>attempts >= maxAttempts\<close>: job becomes \<open>Failed\<close>";
  \<open>attempts\<close> is the count after the increment, so it is at least 1.
\<close>

definition retryPolicy :: "nat \<Rightarrow> decision" where
  "retryPolicy n =
     (if n < maxAttempts then Retry (backoffDelay * 2 ^ (n - 1)) else GiveUp)"

text \<open>
  Modelled from the spec: \<^verbatim>\<open>JobStore.fail\<close>, \<^verbatim>\<open>JobStore.complete\<close> and
  \<^verbatim>\<open>JobStore.claimDue\<close> of section 4.1 (the queue library's worker loop is not under
  \<^verbatim>\<open>src/\<close>). \<open>fail\<close>: "transitions \<open>Active \<rightarrow> Pending\<close> (re-armed with backoff delay) or
  \<open>Active \<rightarrow> Failed\<close> (terminal), decided by RetryPolicy given \<open>attempts\<close>";
  \<open>complete\<close>: "transitions \<open>Active \<rightarrow> Completed\<close>"; \<open>claimDue\<close>: "selects up to
  \<open>limit\<close> jobs where \<open>state == Ready\<close> (i.e., \<open>notBefore <= now\<close> and not already
  \<open>Active\<close>), transitions them to \<open>Active\<close>".
\<close>

definition fail_job :: "int \<Rightarrow> job \<Rightarrow> job" where
  "fail_job now j =
     (if state j = Active
      then (case retryPolicy (attempts j + 1) of
              Retry d \<Rightarrow> j\<lparr>attempts := attempts j + 1, state := Pending, notBefore := now + d\<rparr>
            | GiveUp \<Rightarrow> j\<lparr>attempts := attempts j + 1, state := Failed\<rparr>)
      else j)"

definition JobStore_fail :: "int \<Rightarrow> string \<Rightarrow> job_store \<Rightarrow> job_store" where
  "JobStore_fail now jid q = map (\<lambda>j. if jobId j = jid then fail_job now j else j) q"

definition complete_job :: "job \<Rightarrow> job" where
  "complete_job j = (if state j = Active then j\<lparr>state := Completed\<rparr> else j)"

definition JobStore_complete :: "string \<Rightarrow> job_store \<Rightarrow> job_store" where
  "JobStore_complete jid q = map (\<lambda>j. if jobId j = jid then complete_job j else j) q"

definition due :: "int \<Rightarrow> job \<Rightarrow> bool" where
  "due now j = ((state j = Pending \<or> state j = Ready) \<and> notBefore j \<le> now)"

fun JobStore_claimDue :: "int \<Rightarrow> nat \<Rightarrow> job_store \<Rightarrow> job_store" where
  "JobStore_claimDue now limit [] = []"
| "JobStore_claimDue now 0 (j # q) = j # q"
| "JobStore_claimDue now (Suc limit) (j # q) =
     (if due now j then j\<lparr>state := Active\<rparr> # JobStore_claimDue now limit q
      else j # JobStore_claimDue now (Suc limit) q)"

text \<open>What a worker loop can do to the store: claim, complete, fail.\<close>

datatype worker_event = ClaimDue int nat | Complete string | Fail int string

fun worker_step :: "worker_event \<Rightarrow> job_store \<Rightarrow> job_store" where
  "worker_step (ClaimDue now limit) q = JobStore_claimDue now limit q"
| "worker_step (Complete jid) q = JobStore_complete jid q"
| "worker_step (Fail now jid) q = JobStore_fail now jid q"

subsection \<open>The scheduler\<close>

text \<open>The job ids \<^verbatim>\<open>`publish-${dilemmaId}`\<close> and \<^verbatim>\<open>`reveal-${dilemmaId}`\<close>.\<close>

definition publishJobId :: "string \<Rightarrow> string" where
  "publishJobId did = ''publish-'' @ did"

definition revealJobId :: "string \<Rightarrow> string" where
  "revealJobId did = ''reveal-'' @ did"

text \<open>\<^verbatim>\<open>scheduleDilemma(dilemmaId, publishDate, revealTime)\<close>, lines 139 to 169.\<close>

definition scheduleDilemma :: "int \<Rightarrow> string \<Rightarrow> int \<Rightarrow> int \<Rightarrow> job_store \<Rightarrow> job_store" where
  "scheduleDilemma now did publishDate revealTime q =
     (let publishDelay = publishDate - now;
          revealDelay = revealTime - now;
          q1 = (if publishDelay > 0
                then queue_add now ''publish'' did publishDelay (publishJobId did) q
                else q)
      in (if revealDelay > 0
          then queue_add now ''reveal'' did revealDelay (revealJobId did) q1
          else q1))"

text \<open>
  \<^verbatim>\<open>unscheduleDilemma(dilemmaId)\<close>, lines 174 to 192: both jobs are looked up first
  (\<^verbatim>\<open>Promise.all\<close>), then each one found is removed.
\<close>

definition unscheduleDilemma :: "string \<Rightarrow> job_store \<Rightarrow> job_store" where
  "unscheduleDilemma did q =
     (let publishJob = queue_getJob (publishJobId did) q;
          revealJob = queue_getJob (revealJobId did) q;
          q1 = (case publishJob of Some j \<Rightarrow> job_remove j q | None \<Rightarrow> q)
      in (case revealJob of Some j \<Rightarrow> job_remove j q1 | None \<Rightarrow> q1))"

text \<open>\<^verbatim>\<open>rescheduleDilemma(dilemmaId, publishDate, revealTime)\<close>, lines 197 to 200.\<close>

definition rescheduleDilemma :: "int \<Rightarrow> string \<Rightarrow> int \<Rightarrow> int \<Rightarrow> job_store \<Rightarrow> job_store" where
  "rescheduleDilemma now did publishDate revealTime q =
     scheduleDilemma now did publishDate revealTime (unscheduleDilemma did q)"

text \<open>
  The specification's wording of the same operation (section 4.3): "\<open>unscheduleItem\<close>
  followed by \<open>scheduleItem\<close>", written here as two separate calls on the store.
\<close>

definition unschedule_then_schedule :: "int \<Rightarrow> string \<Rightarrow> int \<Rightarrow> int \<Rightarrow> job_store \<Rightarrow> job_store" where
  "unschedule_then_schedule now did newPublishAt newRevealAt q =
     (let q' = unscheduleDilemma did q in scheduleDilemma now did newPublishAt newRevealAt q')"

subsection \<open>Startup recovery and the daily sweep\<close>

text \<open>JavaScript exceptions (rejected promises) are values of this type.\<close>

datatype error = Error string

text \<open>
  A row of the \<^verbatim>\<open>dilemma\<close> table, with the three columns the scheduler reads:
  \<^verbatim>\<open>dilemma.id\<close>, \<^verbatim>\<open>dilemma.publishDate\<close>, \<^verbatim>\<open>dilemma.revealTime\<close>.
\<close>

record dilemma =
  dilemma_id :: string
  publishDate :: int
  revealTime :: int

text \<open>
  The query of lines 118 to 127 on the rows of the table:
  \<^verbatim>\<open>where: { publishDate: { gt: new Date() } }, orderBy: { publishDate: 'asc' }\<close>.
\<close>

definition findMany_future :: "int \<Rightarrow> dilemma list \<Rightarrow> dilemma list" where
  "findMany_future now rows = sort_key publishDate (filter (\<lambda>d. publishDate d > now) rows)"

text \<open>
  \<^verbatim>\<open>scheduleFutureDilemmas()\<close>, lines 116 to 134. \<open>table\<close> is what reading the table
  gives: its rows, or the error the database client throws, which the method does not
  catch.
\<close>

definition scheduleFutureDilemmas ::
  "int \<Rightarrow> error + dilemma list \<Rightarrow> job_store \<Rightarrow> (error + unit) \<times> job_store" where
  "scheduleFutureDilemmas now table q =
     (case table of
        Inl e \<Rightarrow> (Inl e, q)
      | Inr rows \<Rightarrow>
          (let futureDilemmas = findMany_future now rows
           in (Inr (),
               fold (\<lambda>d. scheduleDilemma now (dilemma_id d) (publishDate d) (revealTime d))
                 futureDilemmas q)))"

text \<open>The \<^verbatim>\<open>'daily-scheduler'\<close> worker, lines 98 to 101.\<close>

definition daily_scheduler_worker ::
  "int \<Rightarrow> error + dilemma list \<Rightarrow> job_store \<Rightarrow> (error + unit) \<times> job_store" where
  "daily_scheduler_worker now table q = scheduleFutureDilemmas now table q"

subsection \<open>Effects that may throw\<close>

text \<open>
  An \<^verbatim>\<open>async\<close> call on a world \<open>'w\<close> (the cache store) returns a value or throws, and
  leaves a world behind in both cases.
\<close>

type_synonym ('a, 'w) io = "'w \<Rightarrow> (error + 'a) \<times> 'w"

definition returnE :: "'a \<Rightarrow> ('a, 'w) io" where
  "returnE x w = (Inr x, w)"

definition throwE :: "error \<Rightarrow> ('a, 'w) io" where
  "throwE e w = (Inl e, w)"

definition liftE :: "error + 'a \<Rightarrow> ('a, 'w) io" where
  "liftE r w = (r, w)"

definition bindE :: "('a, 'w) io \<Rightarrow> ('a \<Rightarrow> ('b, 'w) io) \<Rightarrow> ('b, 'w) io" where
  "bindE m f w = (case m w of (Inl e, w') \<Rightarrow> (Inl e, w') | (Inr x, w') \<Rightarrow> f x w')"

text \<open>\<^verbatim>\<open>try { m } catch (error) { h(error) }\<close>\<close>

definition tryCatch :: "('a, 'w) io \<Rightarrow> (error \<Rightarrow> ('a, 'w) io) \<Rightarrow> ('a, 'w) io" where
  "tryCatch m h w = (case m w of (Inl e, w') \<Rightarrow> h e w' | (Inr x, w') \<Rightarrow> (Inr x, w'))"

subsection \<open>The collaborators\<close>

text \<open>
  The cache client (\<^verbatim>\<open>redis.get\<close>, \<^verbatim>\<open>redis.set\<close>, \<^verbatim>\<open>redis.setex\<close>, \<^verbatim>\<open>redis.del\<close>,
  \<^verbatim>\<open>redis.keys\<close>, \<^verbatim>\<open>redis.exists\<close>), \<^verbatim>\<open>JSON.parse\<close> and \<^verbatim>\<open>JSON.stringify\<close>, and
  \<^verbatim>\<open>prisma.vote.count\<close> are libraries outside the repository: they are parameters of the
  model, and each of them may throw. \<open>vote_count did None\<close> is
  \<^verbatim>\<open>prisma.vote.count({ where: { dilemmaId } })\<close>, \<open>vote_count did (Some ''A'')\<close> is
  \<^verbatim>\<open>prisma.vote.count({ where: { dilemmaId, choice: 'A' } })\<close>. \<open>round_pct a b\<close> is the
  double-precision expression \<^verbatim>\<open>Math.round((a / b) * 100)\<close>.
\<close>

record ('w, 'v) env =
  redis_get :: "string \<Rightarrow> (string option, 'w) io"
  redis_set :: "string \<Rightarrow> string \<Rightarrow> (unit, 'w) io"
  redis_setex :: "string \<Rightarrow> int \<Rightarrow> string \<Rightarrow> (unit, 'w) io"
  redis_del :: "string list \<Rightarrow> (unit, 'w) io"
  redis_keys :: "string \<Rightarrow> (string list, 'w) io"
  redis_exists :: "string \<Rightarrow> (int, 'w) io"
  JSON_parse :: "string \<Rightarrow> error + 'v"
  JSON_stringify :: "'v \<Rightarrow> error + string"
  vote_count :: "string \<Rightarrow> string option \<Rightarrow> error + int"
  round_pct :: "int \<Rightarrow> int \<Rightarrow> int"

subsection \<open>CacheService\<close>

text \<open>\<^verbatim>\<open>CacheService.get\<close>, lines 55 to 64; \<^verbatim>\<open>!cached\<close> holds for \<^verbatim>\<open>null\<close> and for the empty string.\<close>

definition CacheService_get :: "('w, 'v) env \<Rightarrow> string \<Rightarrow> ('v option, 'w) io" where
  "CacheService_get env key =
     tryCatch
       (bindE (redis_get env key) (\<lambda>cached.
          (case cached of
             None \<Rightarrow> returnE None
           | Some c \<Rightarrow>
               if c = [] then returnE None
               else bindE (liftE (JSON_parse env c)) (\<lambda>v. returnE (Some v)))))
       (\<lambda>error. returnE None)"

text \<open>
  \<^verbatim>\<open>CacheService.set\<close>, lines 69 to 80; \<^verbatim>\<open>if (expirationSeconds)\<close> holds for a number
  other than 0.
\<close>

definition CacheService_set :: "('w, 'v) env \<Rightarrow> string \<Rightarrow> 'v \<Rightarrow> int option \<Rightarrow> (unit, 'w) io" where
  "CacheService_set env key val expirationSeconds =
     tryCatch
       (bindE (liftE (JSON_stringify env val)) (\<lambda>serialized.
          (case expirationSeconds of
             None \<Rightarrow> redis_set env key serialized
           | Some n \<Rightarrow>
               if n \<noteq> 0 then redis_setex env key n serialized
               else redis_set env key serialized)))
       (\<lambda>error. returnE ())"

text \<open>\<^verbatim>\<open>CacheService.del\<close>, lines 85 to 93.\<close>

definition CacheService_del :: "('w, 'v) env \<Rightarrow> string list \<Rightarrow> (unit, 'w) io" where
  "CacheService_del env keys =
     tryCatch
       (if length keys > 0 then redis_del env keys else returnE ())
       (\<lambda>error. returnE ())"

text \<open>\<^verbatim>\<open>CacheService.delPattern\<close>, lines 98 to 107.\<close>

definition CacheService_delPattern :: "('w, 'v) env \<Rightarrow> string \<Rightarrow> (unit, 'w) io" where
  "CacheService_delPattern env pattern =
     tryCatch
       (bindE (redis_keys env pattern) (\<lambda>keys.
          if length keys > 0 then redis_del env keys else returnE ()))
       (\<lambda>error. returnE ())"

text \<open>\<^verbatim>\<open>CacheService.exists\<close>, lines 112 to 120.\<close>

definition CacheService_exists :: "('w, 'v) env \<Rightarrow> string \<Rightarrow> (bool, 'w) io" where
  "CacheService_exists env key =
     tryCatch
       (bindE (redis_exists env key) (\<lambda>result. returnE (result = 1)))
       (\<lambda>error. returnE False)"

definition CACHE_KEYS_STATS_GLOBAL :: "string \<Rightarrow> string" where
  "CACHE_KEYS_STATS_GLOBAL did = ''stats:global:'' @ did"

definition CACHE_TTL_STATS :: int where
  "CACHE_TTL_STATS = 60"

subsection \<open>Statistics\<close>

record choice_stats =
  count :: int
  percentage :: int

record stats =
  totalVotes :: int
  choiceA :: choice_stats
  choiceB :: choice_stats

text \<open>\<^verbatim>\<open>SchedulerService.precalculateStats\<close>, lines 222 to 252.\<close>

definition precalculateStats :: "('w, stats) env \<Rightarrow> string \<Rightarrow> (unit, 'w) io" where
  "precalculateStats env did =
     tryCatch
       (bindE (liftE (vote_count env did None)) (\<lambda>totalVotes'.
        bindE (liftE (vote_count env did (Some ''A''))) (\<lambda>votesA.
          CacheService_set env (''stats:global:'' @ did)
            \<lparr>totalVotes = totalVotes',
             choiceA = \<lparr>count = votesA,
                        percentage = (if totalVotes' > 0 then round_pct env votesA totalVotes' else 0)\<rparr>,
             choiceB = \<lparr>count = totalVotes' - votesA,
                        percentage = (if totalVotes' > 0 then round_pct env (totalVotes' - votesA) totalVotes'
                                      else 0)\<rparr>\<rparr>
            (Some 3600))))
       (\<lambda>error. returnE ())"

text \<open>
  \<^verbatim>\<open>StatsService.getGlobalStats\<close>, lines 272 to 302 of \<^verbatim>\<open>dilemma.service.ts\<close>. A cached
  value is an object, hence truthy.
\<close>

definition getGlobalStats :: "('w, stats) env \<Rightarrow> string \<Rightarrow> (stats, 'w) io" where
  "getGlobalStats env did =
     (let cacheKey = CACHE_KEYS_STATS_GLOBAL did
      in bindE (CacheService_get env cacheKey) (\<lambda>cached.
           (case cached of
              Some c \<Rightarrow> returnE c
            | None \<Rightarrow>
                bindE (liftE (vote_count env did None)) (\<lambda>totalVotes'.
                bindE (liftE (vote_count env did (Some ''A''))) (\<lambda>votesA.
                  (let votesB = totalVotes' - votesA;
                       st = \<lparr>totalVotes = totalVotes',
                             choiceA = \<lparr>count = votesA,
                                        percentage = (if totalVotes' > 0 then round_pct env votesA totalVotes'
                                                      else 0)\<rparr>,
                             choiceB = \<lparr>count = votesB,
                                        percentage = (if totalVotes' > 0 then round_pct env votesB totalVotes'
                                                      else 0)\<rparr>\<rparr>
                   in bindE (CacheService_set env cacheKey st (Some CACHE_TTL_STATS))
                        (\<lambda>_. returnE st)))))))"

text \<open>
  The aggregate statistic as a function of the two vote counts, stated once and apart
  from the two methods that compute it: the count of A is \<open>votesA\<close>, the count of B is
  \<open>totalVotes - votesA\<close>, and each percentage is \<open>round(count / totalVotes * 100)\<close>
  when \<open>totalVotes > 0\<close> and 0 otherwise; \<open>pct\<close> is the rounding expression.
\<close>

definition aggregate :: "(int \<Rightarrow> int \<Rightarrow> int) \<Rightarrow> int \<Rightarrow> int \<Rightarrow> stats" where
  "aggregate pct totalVotes' votesA =
     \<lparr>totalVotes = totalVotes',
      choiceA = \<lparr>count = votesA,
                 percentage = (if totalVotes' > 0 then pct votesA totalVotes' else 0)\<rparr>,
      choiceB = \<lparr>count = totalVotes' - votesA,
                 percentage = (if totalVotes' > 0 then pct (totalVotes' - votesA) totalVotes'
                               else 0)\<rparr>\<rparr>"

subsection \<open>The workers\<close>

text \<open>The \<^verbatim>\<open>'publish'\<close> worker, lines 52 to 73.\<close>

definition publish_worker :: "('w, 'v) env \<Rightarrow> string \<Rightarrow> (unit, 'w) io" where
  "publish_worker env did =
     tryCatch
       (CacheService_del env [''dilemma:today'', ''dilemma:tomorrow''])
       (\<lambda>error. throwE error)"

text \<open>The \<^verbatim>\<open>'reveal'\<close> worker, lines 76 to 95.\<close>

definition reveal_worker :: "('w, stats) env \<Rightarrow> string \<Rightarrow> (unit, 'w) io" where
  "reveal_worker env did =
     tryCatch
       (bindE (CacheService_delPattern env (''stats:*:'' @ did @ ''*'')) (\<lambda>_.
          precalculateStats env did))
       (\<lambda>error. throwE error)"

subsection \<open>An in-memory cache store\<close>

text \<open>
  A cache store that works, to run the model on: entries are key, value and time to
  live; \<open>KEYS\<close> understands \<open>*\<close> and literal characters, which is what the pattern of the
  reveal worker uses when the id has no special character.
\<close>

type_synonym mem = "(string \<times> string \<times> int option) list"

fun glob_match :: "string \<Rightarrow> string \<Rightarrow> bool" where
  "glob_match [] s = (s = [])"
| "glob_match (p # ps) [] = (p = CHR ''*'' \<and> glob_match ps [])"
| "glob_match (p # ps) (c # cs) =
     (if p = CHR ''*'' then glob_match ps (c # cs) \<or> glob_match (p # ps) cs
      else p = c \<and> glob_match ps cs)"

definition mem_put :: "string \<Rightarrow> string \<Rightarrow> int option \<Rightarrow> mem \<Rightarrow> mem" where
  "mem_put k v ttl m = (k, v, ttl) # filter (\<lambda>e. fst e \<noteq> k) m"

definition mem_env ::
  "(string \<Rightarrow> error + 'v) \<Rightarrow> ('v \<Rightarrow> error + string) \<Rightarrow> (string \<Rightarrow> string option \<Rightarrow> error + int) \<Rightarrow>
   (int \<Rightarrow> int \<Rightarrow> int) \<Rightarrow> (mem, 'v) env" where
  "mem_env parse stringify votes pct =
     \<lparr>redis_get = (\<lambda>k m. (Inr (map_option fst (map_of m k)), m)),
      redis_set = (\<lambda>k v m. (Inr (), mem_put k v None m)),
      redis_setex = (\<lambda>k n v m. (Inr (), mem_put k v (Some n) m)),
      redis_del = (\<lambda>ks m. (Inr (), filter (\<lambda>e. fst e \<notin> set ks) m)),
      redis_keys = (\<lambda>pat m. (Inr (filter (glob_match pat) (map fst m)), m)),
      redis_exists = (\<lambda>k m. (Inr (if k \<in> set (map fst m) then 1 else 0), m)),
      JSON_parse = parse,
      JSON_stringify = stringify,
      vote_count = votes,
      round_pct = pct\<rparr>"

text \<open>A cache store and a database that are down: every call throws.\<close>

definition down_env :: "('w, 'v) env" where
  "down_env =
     \<lparr>redis_get = (\<lambda>k. throwE (Error ''ECONNREFUSED'')),
      redis_set = (\<lambda>k v. throwE (Error ''ECONNREFUSED'')),
      redis_setex = (\<lambda>k n v. throwE (Error ''ECONNREFUSED'')),
      redis_del = (\<lambda>ks. throwE (Error ''ECONNREFUSED'')),
      redis_keys = (\<lambda>pat. throwE (Error ''ECONNREFUSED'')),
      redis_exists = (\<lambda>k. throwE (Error ''ECONNREFUSED'')),
      JSON_parse = (\<lambda>s. Inl (Error ''SyntaxError'')),
      JSON_stringify = (\<lambda>v. Inl (Error ''TypeError'')),
      vote_count = (\<lambda>did c. Inl (Error ''PrismaClientKnownRequestError'')),
      round_pct = (\<lambda>a b. 0)\<rparr>"

section \<open>Properties of the job store and the scheduler\<close>

subsection \<open>Auxiliary facts\<close>


lemma publish_neq_reveal: "publishJobId a \<noteq> revealJobId b"
  by (simp add: publishJobId_def revealJobId_def)

lemma publishJobId_inj: "(publishJobId a = publishJobId b) = (a = b)"
  by (simp add: publishJobId_def)

lemma revealJobId_inj: "(revealJobId a = revealJobId b) = (a = b)"
  by (simp add: revealJobId_def)

lemma jobs_with_id_queue_add_same:
  "0 < d \<Longrightarrow> jobs_with_id k (queue_add now nm did d k q) =
     [\<lparr>jobId = k, name = nm, dilemmaId = did, notBefore = now + d, state = Pending, attempts = 0\<rparr>]"
  by (simp add: jobs_with_id_def queue_add_def filter_empty_conv)

lemma jobs_with_id_queue_add_other:
  "k \<noteq> k' \<Longrightarrow> jobs_with_id k (queue_add now nm did d k' q) = jobs_with_id k q"
  by (auto simp add: jobs_with_id_def queue_add_def intro: filter_cong)

lemma jobs_with_id_queue_add_rejected:
  "\<not> 0 < d \<Longrightarrow> queue_add now nm did d k q = q"
  by (simp add: queue_add_def)

lemma queue_getJob_None: "(queue_getJob k q = None) = (jobs_with_id k q = [])"
  by (auto simp add: queue_getJob_def jobs_with_id_def find_None_iff filter_empty_conv)

lemma queue_getJob_Some: "queue_getJob k q = Some j \<Longrightarrow> jobId j = k"
  by (auto simp add: queue_getJob_def find_Some_iff)

lemma remove_looked_up:
  "(case queue_getJob k q of Some j \<Rightarrow> job_remove j q' | None \<Rightarrow> q') =
     (if queue_getJob k q = None then q' else filter (\<lambda>j. jobId j \<noteq> k) q')"
  by (auto simp add: job_remove_def dest: queue_getJob_Some split: option.splits)

lemma filter_absent:
  "queue_getJob k q = None \<Longrightarrow> filter (\<lambda>j. jobId j \<noteq> k) (filter P q) = filter P q"
  by (auto simp add: queue_getJob_def find_None_iff intro: filter_cong)

lemma unscheduleDilemma_filter:
  "unscheduleDilemma did q =
     filter (\<lambda>j. jobId j \<noteq> publishJobId did \<and> jobId j \<noteq> revealJobId did) q"
proof -
  let ?p = "publishJobId did" and ?r = "revealJobId did"
  have q1: "(case queue_getJob ?p q of Some j \<Rightarrow> job_remove j q | None \<Rightarrow> q)
              = filter (\<lambda>j. jobId j \<noteq> ?p) q"
    using filter_absent [of ?p q "\<lambda>_. True"] by (simp add: remove_looked_up)
  have q2: "(case queue_getJob ?r q of Some j \<Rightarrow> job_remove j (filter (\<lambda>j. jobId j \<noteq> ?p) q)
              | None \<Rightarrow> filter (\<lambda>j. jobId j \<noteq> ?p) q)
              = filter (\<lambda>j. jobId j \<noteq> ?r) (filter (\<lambda>j. jobId j \<noteq> ?p) q)"
    using filter_absent [of ?r q "\<lambda>j. jobId j \<noteq> ?p"] by (simp add: remove_looked_up)
  have "unscheduleDilemma did q = filter (\<lambda>j. jobId j \<noteq> ?r) (filter (\<lambda>j. jobId j \<noteq> ?p) q)"
    by (simp only: unscheduleDilemma_def Let_def q1 q2)
  also have "\<dots> = filter (\<lambda>j. jobId j \<noteq> ?p \<and> jobId j \<noteq> ?r) q"
    by (auto intro: filter_cong)
  finally show ?thesis .
qed


lemma scheduleDilemma_publish:
  "jobs_with_id (publishJobId did) (scheduleDilemma now did p r q) =
     (if 0 < p - now
      then [\<lparr>jobId = publishJobId did, name = ''publish'', dilemmaId = did, notBefore = p,
             state = Pending, attempts = 0\<rparr>]
      else jobs_with_id (publishJobId did) q)"
  by (simp add: scheduleDilemma_def Let_def jobs_with_id_queue_add_same
      jobs_with_id_queue_add_other publish_neq_reveal)

lemma scheduleDilemma_reveal:
  "jobs_with_id (revealJobId did) (scheduleDilemma now did p r q) =
     (if 0 < r - now
      then [\<lparr>jobId = revealJobId did, name = ''reveal'', dilemmaId = did, notBefore = r,
             state = Pending, attempts = 0\<rparr>]
      else jobs_with_id (revealJobId did) q)"
  by (simp add: scheduleDilemma_def Let_def jobs_with_id_queue_add_same
      jobs_with_id_queue_add_other publish_neq_reveal [symmetric])

lemma scheduleDilemma_untouched:
  "k \<noteq> publishJobId did \<Longrightarrow> k \<noteq> revealJobId did \<Longrightarrow>
     jobs_with_id k (scheduleDilemma now did p r q) = jobs_with_id k q"
  by (simp add: scheduleDilemma_def Let_def jobs_with_id_queue_add_other)

lemma jobs_with_id_unscheduleDilemma:
  "jobs_with_id k (unscheduleDilemma did q) =
     (if k = publishJobId did \<or> k = revealJobId did then [] else jobs_with_id k q)"
  by (auto simp add: unscheduleDilemma_filter jobs_with_id_def filter_empty_conv
      intro: filter_cong)


lemma count_list_insort_key:
  "count_list (insort_key f x xs) y = count_list (x # xs) y"
  by (induction xs) auto

lemma count_list_sort_key: "count_list (sort_key f xs) y = count_list xs y"
  by (induction xs) (simp_all add: count_list_insort_key)

lemma count_list_filter:
  "count_list (filter P xs) y = (if P y then count_list xs y else 0)"
  by (induction xs) auto

lemma distinct_map_insort_key:
  "distinct (map g (insort_key f x xs)) = distinct (map g (x # xs))"
  by (induction xs) (auto simp add: set_insort_key)

lemma distinct_map_sort_key:
  "distinct (map g (sort_key f xs)) = distinct (map g xs)"
  by (induction xs) (simp_all add: distinct_map_insort_key)

lemma findMany_future_distinct:
  "distinct (map dilemma_id rows) \<Longrightarrow> distinct (map dilemma_id (findMany_future now rows))"
  by (simp add: findMany_future_def distinct_map_sort_key distinct_map_filter)

lemma findMany_future_set:
  "set (findMany_future now rows) = {d \<in> set rows. publishDate d > now}"
  by (simp add: findMany_future_def)

lemma fold_schedule_untouched:
  "\<forall>d \<in> set ds. k \<noteq> publishJobId (dilemma_id d) \<and> k \<noteq> revealJobId (dilemma_id d) \<Longrightarrow>
     jobs_with_id k
       (fold (\<lambda>d. scheduleDilemma now (dilemma_id d) (publishDate d) (revealTime d)) ds q) =
     jobs_with_id k q"
  by (induction ds arbitrary: q) (simp_all add: scheduleDilemma_untouched)

lemma fold_schedule_publish:
  "distinct (map dilemma_id ds) \<Longrightarrow> d \<in> set ds \<Longrightarrow>
     jobs_with_id (publishJobId (dilemma_id d))
       (fold (\<lambda>d. scheduleDilemma now (dilemma_id d) (publishDate d) (revealTime d)) ds q) =
     (if 0 < publishDate d - now
      then [\<lparr>jobId = publishJobId (dilemma_id d), name = ''publish'', dilemmaId = dilemma_id d,
             notBefore = publishDate d, state = Pending, attempts = 0\<rparr>]
      else jobs_with_id (publishJobId (dilemma_id d)) q)"
proof (induction ds arbitrary: q)
  case Nil
  then show ?case by simp
next
  case (Cons a ds)
  show ?case
  proof (cases "d = a")
    case True
    from Cons.prems(1) have "dilemma_id a \<notin> dilemma_id ` set ds" by simp
    then have "\<forall>x \<in> set ds. dilemma_id x \<noteq> dilemma_id a" by (metis imageI)
    then have "\<forall>x \<in> set ds. publishJobId (dilemma_id a) \<noteq> publishJobId (dilemma_id x) \<and>
        publishJobId (dilemma_id a) \<noteq> revealJobId (dilemma_id x)"
      by (auto simp add: publishJobId_inj publish_neq_reveal)
    then show ?thesis
      using True by (simp add: fold_schedule_untouched scheduleDilemma_publish)
  next
    case False
    with Cons.prems have d: "d \<in> set ds" "distinct (map dilemma_id ds)" by auto
    from Cons.prems(1) have "dilemma_id a \<notin> dilemma_id ` set ds" by simp
    with d(1) have ne: "dilemma_id d \<noteq> dilemma_id a" by (metis imageI)
    have "publishJobId (dilemma_id d) \<noteq> publishJobId (dilemma_id a)"
         "publishJobId (dilemma_id d) \<noteq> revealJobId (dilemma_id a)"
      using ne by (simp_all add: publishJobId_inj publish_neq_reveal)
    then show ?thesis
      using Cons.IH [OF d(2) d(1)] by (simp add: scheduleDilemma_untouched)
  qed
qed

lemma fold_schedule_reveal:
  "distinct (map dilemma_id ds) \<Longrightarrow> d \<in> set ds \<Longrightarrow>
     jobs_with_id (revealJobId (dilemma_id d))
       (fold (\<lambda>d. scheduleDilemma now (dilemma_id d) (publishDate d) (revealTime d)) ds q) =
     (if 0 < revealTime d - now
      then [\<lparr>jobId = revealJobId (dilemma_id d), name = ''reveal'', dilemmaId = dilemma_id d,
             notBefore = revealTime d, state = Pending, attempts = 0\<rparr>]
      else jobs_with_id (revealJobId (dilemma_id d)) q)"
proof (induction ds arbitrary: q)
  case Nil
  then show ?case by simp
next
  case (Cons a ds)
  show ?case
  proof (cases "d = a")
    case True
    from Cons.prems(1) have "dilemma_id a \<notin> dilemma_id ` set ds" by simp
    then have "\<forall>x \<in> set ds. dilemma_id x \<noteq> dilemma_id a" by (metis imageI)
    then have "\<forall>x \<in> set ds. revealJobId (dilemma_id a) \<noteq> publishJobId (dilemma_id x) \<and>
        revealJobId (dilemma_id a) \<noteq> revealJobId (dilemma_id x)"
      by (auto simp add: revealJobId_inj publish_neq_reveal [symmetric])
    then show ?thesis
      using True by (simp add: fold_schedule_untouched scheduleDilemma_reveal)
  next
    case False
    with Cons.prems have d: "d \<in> set ds" "distinct (map dilemma_id ds)" by auto
    from Cons.prems(1) have "dilemma_id a \<notin> dilemma_id ` set ds" by simp
    with d(1) have ne: "dilemma_id d \<noteq> dilemma_id a" by (metis imageI)
    have "revealJobId (dilemma_id d) \<noteq> publishJobId (dilemma_id a)"
         "revealJobId (dilemma_id d) \<noteq> revealJobId (dilemma_id a)"
      using ne by (simp_all add: revealJobId_inj publish_neq_reveal [symmetric])
    then show ?thesis
      using Cons.IH [OF d(2) d(1)] by (simp add: scheduleDilemma_untouched)
  qed
qed

lemma find_jobId_map:
  "(\<And>j. jobId (f j) = jobId j) \<Longrightarrow>
     find (\<lambda>j. jobId j = k) (map f q) = map_option f (find (\<lambda>j. jobId j = k) q)"
  by (induction q) simp_all

lemma jobId_fail_job: "jobId (fail_job now j) = jobId j"
  by (simp add: fail_job_def split: decision.splits)

lemma jobId_complete_job: "jobId (complete_job j) = jobId j"
  by (simp add: complete_job_def)

lemma queue_getJob_fail:
  "queue_getJob k q = Some j \<Longrightarrow> queue_getJob k (JobStore_fail now k q) = Some (fail_job now j)"
proof -
  assume a: "queue_getJob k q = Some j"
  then have k: "jobId j = k" by (rule queue_getJob_Some)
  have "queue_getJob k (JobStore_fail now k q) =
      map_option (\<lambda>j. if jobId j = k then fail_job now j else j) (queue_getJob k q)"
    unfolding queue_getJob_def JobStore_fail_def
    by (rule find_jobId_map) (simp add: jobId_fail_job)
  with a k show ?thesis by simp
qed

lemma claimDue_keeps_failed:
  "list_all2 (\<lambda>a b. jobId b = jobId a \<and> (state a = Failed \<longrightarrow> b = a)) q
     (JobStore_claimDue now limit q)"
  by (induction now limit q rule: JobStore_claimDue.induct)
     (auto simp add: due_def list_all2_same)

lemma worker_step_keeps_failed:
  "list_all2 (\<lambda>a b. jobId b = jobId a \<and> (state a = Failed \<longrightarrow> b = a)) q (worker_step ev q)"
proof (cases ev)
  case (ClaimDue now limit)
  then show ?thesis by (simp add: claimDue_keeps_failed)
next
  case (Complete k)
  then show ?thesis
    by (simp add: JobStore_complete_def list_all2_map2 list_all2_same complete_job_def)
next
  case (Fail now k)
  then show ?thesis
    by (auto simp add: JobStore_fail_def list_all2_map2 list_all2_same jobId_fail_job)
       (simp add: fail_job_def)
qed

lemma queue_getJob_kept:
  "list_all2 (\<lambda>a b. jobId b = jobId a \<and> (state a = Failed \<longrightarrow> b = a)) q q' \<Longrightarrow>
     queue_getJob k q = Some j \<Longrightarrow> state j = Failed \<Longrightarrow> queue_getJob k q' = Some j"
  unfolding queue_getJob_def
  by (induction q q' rule: list_all2_induct) (auto split: if_splits)

lemma failed_is_terminal:
  "queue_getJob k q = Some j \<Longrightarrow> state j = Failed \<Longrightarrow>
     queue_getJob k (fold worker_step evs q) = Some j"
proof (induction evs arbitrary: q)
  case Nil
  then show ?case by simp
next
  case (Cons ev evs)
  have "queue_getJob k (worker_step ev q) = Some j"
    using worker_step_keeps_failed Cons.prems by (rule queue_getJob_kept)
  then show ?case using Cons.IH Cons.prems(2) by simp
qed

subsection \<open>Auxiliary facts on effects, the cache service and the workers\<close>

lemma tryCatch_return_total:
  "\<exists>x. fst (tryCatch m (\<lambda>error. returnE v) w) = Inr x"
  by (simp add: tryCatch_def returnE_def split: prod.splits sum.splits)

lemma tryCatch_return_unit:
  "fst (tryCatch m (\<lambda>error. returnE ()) w) = Inr ()"
  by (simp add: tryCatch_def returnE_def split: prod.splits sum.splits)

lemma tryCatch_caught:
  "fst (m w) = Inl e \<Longrightarrow> tryCatch m (\<lambda>error. returnE v) w = (Inr v, snd (m w))"
  by (cases "m w") (auto simp add: tryCatch_def returnE_def)

lemma bindE_throws:
  "fst (m w) = Inl e \<Longrightarrow> bindE m f w = (Inl e, snd (m w))"
  by (cases "m w") (auto simp add: bindE_def)

lemma bindE_returns:
  "fst (m w) = Inr x \<Longrightarrow> bindE m f w = f x (snd (m w))"
  by (cases "m w") (auto simp add: bindE_def)

lemma tryCatch_rethrow: "tryCatch m (\<lambda>error. throwE error) = m"
  by (rule ext) (simp add: tryCatch_def throwE_def split: prod.splits sum.splits)

lemma CacheService_get_total: "\<exists>r. fst (CacheService_get env key w) = Inr r"
  unfolding CacheService_get_def by (rule tryCatch_return_total)

lemma CacheService_set_total: "fst (CacheService_set env key val ex w) = Inr ()"
  unfolding CacheService_set_def by (rule tryCatch_return_unit)

lemma CacheService_del_total: "fst (CacheService_del env keys w) = Inr ()"
  unfolding CacheService_del_def by (rule tryCatch_return_unit)

lemma CacheService_delPattern_total: "fst (CacheService_delPattern env pat w) = Inr ()"
  unfolding CacheService_delPattern_def by (rule tryCatch_return_unit)

lemma CacheService_exists_total: "\<exists>r. fst (CacheService_exists env key w) = Inr r"
  unfolding CacheService_exists_def by (rule tryCatch_return_total)

lemma precalculateStats_total: "fst (precalculateStats env did w) = Inr ()"
  unfolding precalculateStats_def by (rule tryCatch_return_unit)

lemma publish_worker_total: "fst (publish_worker env did w) = Inr ()"
  by (simp add: publish_worker_def tryCatch_rethrow CacheService_del_total)

lemma reveal_worker_sequence:
  "reveal_worker env did w =
     (Inr (), snd (precalculateStats env did
                (snd (CacheService_delPattern env (''stats:*:'' @ did @ ''*'') w))))"
proof -
  let ?pat = "''stats:*:'' @ did @ ''*''"
  let ?w1 = "snd (CacheService_delPattern env ?pat w)"
  have "reveal_worker env did w = precalculateStats env did ?w1"
    unfolding reveal_worker_def tryCatch_rethrow
    by (rule bindE_returns) (rule CacheService_delPattern_total)
  also have "\<dots> = (Inr (), snd (precalculateStats env did ?w1))"
    using precalculateStats_total [of env did ?w1] by (simp add: prod_eq_iff)
  finally show ?thesis .
qed

lemma CacheService_get_null_on_error:
  "fst (redis_get env key w) = Inl e \<Longrightarrow> fst (CacheService_get env key w) = Inr None"
  unfolding CacheService_get_def
  by (subst tryCatch_caught [where e = e]) (simp_all add: bindE_throws)

lemma CacheService_get_null_on_parse_error:
  "fst (redis_get env key w) = Inr (Some c) \<Longrightarrow> c \<noteq> [] \<Longrightarrow> JSON_parse env c = Inl e \<Longrightarrow>
     fst (CacheService_get env key w) = Inr None"
  unfolding CacheService_get_def
  by (subst tryCatch_caught [where e = e])
     (simp_all add: bindE_returns bindE_throws liftE_def)


lemma tryCatch_return_world: "snd (tryCatch m (\<lambda>error. returnE v) w) = snd (m w)"
  by (cases "m w") (auto simp add: tryCatch_def returnE_def split: sum.splits)

lemma CacheService_delPattern_deletes:
  "fst (redis_keys env pat w) = Inr ks \<Longrightarrow>
     snd (CacheService_delPattern env pat w) =
       (if length ks > 0 then snd (redis_del env ks (snd (redis_keys env pat w)))
        else snd (redis_keys env pat w))"
  unfolding CacheService_delPattern_def tryCatch_return_world
  by (simp add: bindE_returns returnE_def)

lemma CacheService_delPattern_keys_fail:
  "fst (redis_keys env pat w) = Inl e \<Longrightarrow>
     snd (CacheService_delPattern env pat w) = snd (redis_keys env pat w)"
  unfolding CacheService_delPattern_def tryCatch_return_world
  by (simp add: bindE_throws)

lemma CacheService_set_setex:
  "JSON_stringify env v = Inr s \<Longrightarrow> n \<noteq> 0 \<Longrightarrow>
     snd (CacheService_set env k v (Some n) w) = snd (redis_setex env k n s w)"
  unfolding CacheService_set_def tryCatch_return_world
  by (simp add: bindE_returns liftE_def)

lemma precalculateStats_caches:
  "vote_count env did None = Inr totalVotes' \<Longrightarrow> vote_count env did (Some ''A'') = Inr votesA \<Longrightarrow>
     snd (precalculateStats env did w) =
       snd (CacheService_set env (''stats:global:'' @ did)
         \<lparr>totalVotes = totalVotes',
          choiceA = \<lparr>count = votesA,
                     percentage = (if totalVotes' > 0 then round_pct env votesA totalVotes' else 0)\<rparr>,
          choiceB = \<lparr>count = totalVotes' - votesA,
                     percentage = (if totalVotes' > 0 then round_pct env (totalVotes' - votesA) totalVotes' else 0)\<rparr>\<rparr>
         (Some 3600) w)"
  unfolding precalculateStats_def tryCatch_return_world
  by (simp add: bindE_returns liftE_def)

lemma precalculateStats_count_fails:
  "vote_count env did None = Inl e \<Longrightarrow> precalculateStats env did w = (Inr (), w)"
  unfolding precalculateStats_def
  by (subst tryCatch_caught [where e = e]) (simp_all add: bindE_throws liftE_def)

lemma getGlobalStats_miss:
  "fst (CacheService_get env (CACHE_KEYS_STATS_GLOBAL did) w) = Inr None \<Longrightarrow>
   vote_count env did None = Inr totalVotes' \<Longrightarrow> vote_count env did (Some ''A'') = Inr votesA \<Longrightarrow>
     getGlobalStats env did w =
       (Inr \<lparr>totalVotes = totalVotes',
             choiceA = \<lparr>count = votesA,
                        percentage = (if totalVotes' > 0 then round_pct env votesA totalVotes' else 0)\<rparr>,
             choiceB = \<lparr>count = totalVotes' - votesA,
                        percentage = (if totalVotes' > 0 then round_pct env (totalVotes' - votesA) totalVotes' else 0)\<rparr>\<rparr>,
        snd (CacheService_set env (CACHE_KEYS_STATS_GLOBAL did)
          \<lparr>totalVotes = totalVotes',
           choiceA = \<lparr>count = votesA,
                      percentage = (if totalVotes' > 0 then round_pct env votesA totalVotes' else 0)\<rparr>,
           choiceB = \<lparr>count = totalVotes' - votesA,
                      percentage = (if totalVotes' > 0 then round_pct env (totalVotes' - votesA) totalVotes' else 0)\<rparr>\<rparr>
          (Some CACHE_TTL_STATS)
          (snd (CacheService_get env (CACHE_KEYS_STATS_GLOBAL did) w))))"
  unfolding getGlobalStats_def Let_def
  by (simp add: bindE_returns liftE_def CacheService_set_total returnE_def)

lemmas effect_defs = tryCatch_def bindE_def returnE_def throwE_def liftE_def

lemmas cache_defs = CacheService_get_def CacheService_set_def CacheService_del_def
  CacheService_delPattern_def CacheService_exists_def

subsection \<open>Enqueue, schedule, unschedule, reschedule\<close>

text \<open>
  Claim C1. Two enqueue calls for the same job id leave exactly one job under that id,
  it is live, and its \<open>notBefore\<close> is the one of the second call: the second enqueue
  replaces the first. This holds for the store operation itself and for the two jobs
  that two calls of \<^verbatim>\<open>scheduleDilemma\<close> for the same item enqueue. An enqueue call carries a
  positive delay; \<^verbatim>\<open>scheduleDilemma\<close> makes no other.
\<close>

theorem enqueue_same_id_replaces:
  "0 < d1 \<Longrightarrow> 0 < d2 \<Longrightarrow>
     jobs_with_id k (queue_add t2 nm did d2 k (queue_add t1 nm did d1 k q)) =
       [\<lparr>jobId = k, name = nm, dilemmaId = did, notBefore = t2 + d2, state = Pending,
         attempts = 0\<rparr>]
     \<and> length (filter live (jobs_with_id k (queue_add t2 nm did d2 k (queue_add t1 nm did d1 k q)))) = 1
     \<and> (0 < p1 - t1 \<and> 0 < p2 - t2 \<longrightarrow>
          jobs_with_id (publishJobId did)
            (scheduleDilemma t2 did p2 r2 (scheduleDilemma t1 did p1 r1 q)) =
          [\<lparr>jobId = publishJobId did, name = ''publish'', dilemmaId = did, notBefore = p2,
            state = Pending, attempts = 0\<rparr>])
     \<and> (0 < r1 - t1 \<and> 0 < r2 - t2 \<longrightarrow>
          jobs_with_id (revealJobId did)
            (scheduleDilemma t2 did p2 r2 (scheduleDilemma t1 did p1 r1 q)) =
          [\<lparr>jobId = revealJobId did, name = ''reveal'', dilemmaId = did, notBefore = r2,
            state = Pending, attempts = 0\<rparr>])"
  by (simp add: jobs_with_id_queue_add_same scheduleDilemma_publish scheduleDilemma_reveal
      live_def)

theorem enqueue_same_id_replaces_witness:
  "jobs_with_id ''publish-I1''
     (queue_add 1000 ''publish'' ''I1'' 9000 ''publish-I1''
        (queue_add 0 ''publish'' ''I1'' 5000 ''publish-I1'' [])) =
     [\<lparr>jobId = ''publish-I1'', name = ''publish'', dilemmaId = ''I1'', notBefore = 10000,
       state = Pending, attempts = 0\<rparr>]
   \<and> jobs_with_id (publishJobId ''I1'')
       (scheduleDilemma 1000 ''I1'' 10000 20000 (scheduleDilemma 0 ''I1'' 5000 8000 [])) =
     [\<lparr>jobId = publishJobId ''I1'', name = ''publish'', dilemmaId = ''I1'', notBefore = 10000,
       state = Pending, attempts = 0\<rparr>]
   \<and> jobs_with_id (revealJobId ''I1'')
       (scheduleDilemma 1000 ''I1'' 10000 20000 (scheduleDilemma 0 ''I1'' 5000 8000 [])) =
     [\<lparr>jobId = revealJobId ''I1'', name = ''reveal'', dilemmaId = ''I1'', notBefore = 20000,
       state = Pending, attempts = 0\<rparr>]"
  using enqueue_same_id_replaces [where ?d1.0 = 5000 and ?d2.0 = 9000 and k = "''publish-I1''"
      and ?t2.0 = 1000 and nm = "''publish''" and did = "''I1''" and ?t1.0 = 0 and q = "[]"
      and ?p1.0 = 5000 and ?p2.0 = 10000 and ?r1.0 = 8000 and ?r2.0 = 20000]
  by simp

text \<open>
  Claim C3. After \<^verbatim>\<open>scheduleDilemma\<close> the store holds a fresh job \<open>publish-<itemId>\<close>, due
  at \<open>publishAt\<close>, when \<open>publishAt - now > 0\<close>, and otherwise what it held under that
  id before; the same for \<open>reveal-<itemId>\<close> and \<open>revealAt\<close>; no other id is touched.
  On a store that had no job under the id, the job exists after the call if and only
  if the delay is positive: a target in the past produces no job.
\<close>

theorem scheduleDilemma_enqueues_future_only:
  "jobs_with_id (publishJobId did) (scheduleDilemma now did publishAt revealAt q) =
     (if publishAt - now > 0
      then [\<lparr>jobId = publishJobId did, name = ''publish'', dilemmaId = did,
             notBefore = publishAt, state = Pending, attempts = 0\<rparr>]
      else jobs_with_id (publishJobId did) q)
   \<and> jobs_with_id (revealJobId did) (scheduleDilemma now did publishAt revealAt q) =
     (if revealAt - now > 0
      then [\<lparr>jobId = revealJobId did, name = ''reveal'', dilemmaId = did,
             notBefore = revealAt, state = Pending, attempts = 0\<rparr>]
      else jobs_with_id (revealJobId did) q)
   \<and> (k \<noteq> publishJobId did \<and> k \<noteq> revealJobId did \<longrightarrow>
        jobs_with_id k (scheduleDilemma now did publishAt revealAt q) = jobs_with_id k q)
   \<and> (queue_getJob (publishJobId did) q = None \<longrightarrow>
        (queue_getJob (publishJobId did) (scheduleDilemma now did publishAt revealAt q) \<noteq> None)
          = (publishAt - now > 0))
   \<and> (queue_getJob (revealJobId did) q = None \<longrightarrow>
        (queue_getJob (revealJobId did) (scheduleDilemma now did publishAt revealAt q) \<noteq> None)
          = (revealAt - now > 0))
   \<and> publishJobId did = ''publish-'' @ did \<and> revealJobId did = ''reveal-'' @ did"
proof (intro conjI)
  show "publishJobId did = ''publish-'' @ did"
    by (simp add: publishJobId_def)
  show "revealJobId did = ''reveal-'' @ did"
    by (simp add: revealJobId_def)
qed (simp_all add: scheduleDilemma_publish scheduleDilemma_reveal scheduleDilemma_untouched
      queue_getJob_None)

theorem scheduleDilemma_enqueues_future_only_witness:
  "scheduleDilemma 1000 ''I1'' 500 20000 [] =
     [\<lparr>jobId = ''reveal-I1'', name = ''reveal'', dilemmaId = ''I1'', notBefore = 20000,
       state = Pending, attempts = 0\<rparr>]
   \<and> queue_getJob (publishJobId ''I1'') (scheduleDilemma 1000 ''I1'' 500 20000 []) = None
   \<and> queue_getJob (revealJobId ''I1'') (scheduleDilemma 1000 ''I1'' 500 20000 []) \<noteq> None"
  using scheduleDilemma_enqueues_future_only [of "''I1''" 1000 500 20000 "[]" "''x''"]
  by (simp add: scheduleDilemma_def queue_add_def queue_getJob_def revealJobId_def publishJobId_def)

text \<open>
  Claim C8. \<^verbatim>\<open>unscheduleDilemma\<close> removes the jobs \<open>publish-<itemId>\<close> and
  \<open>reveal-<itemId>\<close> and nothing else; a job that is absent is skipped, the store is
  unchanged when both are absent, and a second call changes nothing.
\<close>

theorem unscheduleDilemma_removes_both:
  "unscheduleDilemma did q =
     filter (\<lambda>j. jobId j \<noteq> publishJobId did \<and> jobId j \<noteq> revealJobId did) q
   \<and> queue_getJob (publishJobId did) (unscheduleDilemma did q) = None
   \<and> queue_getJob (revealJobId did) (unscheduleDilemma did q) = None
   \<and> (k \<noteq> publishJobId did \<and> k \<noteq> revealJobId did \<longrightarrow>
        jobs_with_id k (unscheduleDilemma did q) = jobs_with_id k q)
   \<and> (queue_getJob (publishJobId did) q = None \<longrightarrow>
        unscheduleDilemma did q = filter (\<lambda>j. jobId j \<noteq> revealJobId did) q)
   \<and> (queue_getJob (revealJobId did) q = None \<longrightarrow>
        unscheduleDilemma did q = filter (\<lambda>j. jobId j \<noteq> publishJobId did) q)
   \<and> (queue_getJob (publishJobId did) q = None \<and> queue_getJob (revealJobId did) q = None \<longrightarrow>
        unscheduleDilemma did q = q)
   \<and> unscheduleDilemma did (unscheduleDilemma did q) = unscheduleDilemma did q"
proof (intro conjI impI)
  show "unscheduleDilemma did q =
     filter (\<lambda>j. jobId j \<noteq> publishJobId did \<and> jobId j \<noteq> revealJobId did) q"
    by (rule unscheduleDilemma_filter)
  show "queue_getJob (publishJobId did) (unscheduleDilemma did q) = None"
    by (simp add: queue_getJob_None jobs_with_id_unscheduleDilemma)
  show "queue_getJob (revealJobId did) (unscheduleDilemma did q) = None"
    by (simp add: queue_getJob_None jobs_with_id_unscheduleDilemma)
  show "jobs_with_id k (unscheduleDilemma did q) = jobs_with_id k q"
    if "k \<noteq> publishJobId did \<and> k \<noteq> revealJobId did"
    using that by (simp add: jobs_with_id_unscheduleDilemma)
  show "unscheduleDilemma did q = filter (\<lambda>j. jobId j \<noteq> revealJobId did) q"
    if "queue_getJob (publishJobId did) q = None"
    using that
    by (auto simp add: unscheduleDilemma_filter queue_getJob_def find_None_iff intro: filter_cong)
  show "unscheduleDilemma did q = filter (\<lambda>j. jobId j \<noteq> publishJobId did) q"
    if "queue_getJob (revealJobId did) q = None"
    using that
    by (auto simp add: unscheduleDilemma_filter queue_getJob_def find_None_iff intro: filter_cong)
  show "unscheduleDilemma did q = q"
    if "queue_getJob (publishJobId did) q = None \<and> queue_getJob (revealJobId did) q = None"
    using that
    by (auto simp add: unscheduleDilemma_filter queue_getJob_def find_None_iff filter_id_conv)
  show "unscheduleDilemma did (unscheduleDilemma did q) = unscheduleDilemma did q"
    by (simp add: unscheduleDilemma_filter)
qed


theorem unscheduleDilemma_removes_both_witness:
  "unscheduleDilemma ''I1'' (scheduleDilemma 0 ''I2'' 5000 8000 (scheduleDilemma 0 ''I1'' 5000 0 []))
     = scheduleDilemma 0 ''I2'' 5000 8000 []
   \<and> unscheduleDilemma ''I1'' (scheduleDilemma 0 ''I2'' 5000 8000 [])
     = scheduleDilemma 0 ''I2'' 5000 8000 []"
  using unscheduleDilemma_removes_both [of "''I1''"
      "scheduleDilemma 0 ''I2'' 5000 8000 (scheduleDilemma 0 ''I1'' 5000 0 [])" "''x''"]
    unscheduleDilemma_removes_both [of "''I1''" "scheduleDilemma 0 ''I2'' 5000 8000 []" "''x''"]
  by (simp add: scheduleDilemma_def queue_add_def queue_getJob_def revealJobId_def publishJobId_def)

text \<open>
  Claim C4. \<^verbatim>\<open>rescheduleDilemma\<close> leaves the store that unscheduling and then scheduling
  leave. Afterwards the jobs under \<open>publish-<itemId>\<close> and \<open>reveal-<itemId>\<close> are
  exactly the ones the new times ask for, so every job under these ids is due at the
  new time and none at the original one.
\<close>

theorem rescheduleDilemma_refines:
  "rescheduleDilemma now did newPublishAt newRevealAt q =
     unschedule_then_schedule now did newPublishAt newRevealAt q
   \<and> jobs_with_id (publishJobId did) (rescheduleDilemma now did newPublishAt newRevealAt q) =
     (if newPublishAt - now > 0
      then [\<lparr>jobId = publishJobId did, name = ''publish'', dilemmaId = did,
             notBefore = newPublishAt, state = Pending, attempts = 0\<rparr>]
      else [])
   \<and> jobs_with_id (revealJobId did) (rescheduleDilemma now did newPublishAt newRevealAt q) =
     (if newRevealAt - now > 0
      then [\<lparr>jobId = revealJobId did, name = ''reveal'', dilemmaId = did,
             notBefore = newRevealAt, state = Pending, attempts = 0\<rparr>]
      else [])
   \<and> (\<forall>j \<in> set (rescheduleDilemma now did newPublishAt newRevealAt q).
        (jobId j = publishJobId did \<longrightarrow> notBefore j = newPublishAt) \<and>
        (jobId j = revealJobId did \<longrightarrow> notBefore j = newRevealAt))"
proof -
  let ?q' = "rescheduleDilemma now did newPublishAt newRevealAt q"
  have eq: "?q' = unschedule_then_schedule now did newPublishAt newRevealAt q"
    by (simp add: rescheduleDilemma_def unschedule_then_schedule_def)
  have p: "jobs_with_id (publishJobId did) ?q' =
     (if newPublishAt - now > 0
      then [\<lparr>jobId = publishJobId did, name = ''publish'', dilemmaId = did,
             notBefore = newPublishAt, state = Pending, attempts = 0\<rparr>]
      else [])"
    by (simp add: rescheduleDilemma_def scheduleDilemma_publish jobs_with_id_unscheduleDilemma)
  have r: "jobs_with_id (revealJobId did) ?q' =
     (if newRevealAt - now > 0
      then [\<lparr>jobId = revealJobId did, name = ''reveal'', dilemmaId = did,
             notBefore = newRevealAt, state = Pending, attempts = 0\<rparr>]
      else [])"
    by (simp add: rescheduleDilemma_def scheduleDilemma_reveal jobs_with_id_unscheduleDilemma)
  have mem: "j \<in> set ?q' \<Longrightarrow> jobId j = k \<Longrightarrow> j \<in> set (jobs_with_id k ?q')" for j k
    by (simp add: jobs_with_id_def)
  have "\<forall>j \<in> set ?q'.
        (jobId j = publishJobId did \<longrightarrow> notBefore j = newPublishAt) \<and>
        (jobId j = revealJobId did \<longrightarrow> notBefore j = newRevealAt)"
  proof (intro ballI conjI impI)
    fix j assume "j \<in> set ?q'" "jobId j = publishJobId did"
    then have "j \<in> set (jobs_with_id (publishJobId did) ?q')" by (rule mem)
    then show "notBefore j = newPublishAt" by (auto simp add: p split: if_splits)
  next
    fix j assume "j \<in> set ?q'" "jobId j = revealJobId did"
    then have "j \<in> set (jobs_with_id (revealJobId did) ?q')" by (rule mem)
    then show "notBefore j = newRevealAt" by (auto simp add: r split: if_splits)
  qed
  with eq p r show ?thesis by blast
qed

theorem rescheduleDilemma_refines_witness:
  "rescheduleDilemma 1000 ''I1'' 30000 40000 (scheduleDilemma 0 ''I1'' 5000 8000 []) =
     unschedule_then_schedule 1000 ''I1'' 30000 40000 (scheduleDilemma 0 ''I1'' 5000 8000 [])
   \<and> jobs_with_id (publishJobId ''I1'')
        (rescheduleDilemma 1000 ''I1'' 30000 40000 (scheduleDilemma 0 ''I1'' 5000 8000 [])) =
      [\<lparr>jobId = publishJobId ''I1'', name = ''publish'', dilemmaId = ''I1'',
        notBefore = 30000, state = Pending, attempts = 0\<rparr>]
   \<and> jobs_with_id (revealJobId ''I1'')
        (rescheduleDilemma 1000 ''I1'' 30000 40000 (scheduleDilemma 0 ''I1'' 5000 8000 [])) =
      [\<lparr>jobId = revealJobId ''I1'', name = ''reveal'', dilemmaId = ''I1'',
        notBefore = 40000, state = Pending, attempts = 0\<rparr>]"
  using rescheduleDilemma_refines [of 1000 "''I1''" 30000 40000
      "scheduleDilemma 0 ''I1'' 5000 8000 []"]
  by (elim conjE) simp

subsection \<open>Startup recovery\<close>

text \<open>
  Claim C5. \<^verbatim>\<open>scheduleFutureDilemmas\<close> calls \<^verbatim>\<open>scheduleDilemma\<close>, with the row's id and
  timestamps, on the rows the query returns; these are the rows of the table with
  \<open>publishDate > now\<close>, each as often as the table has it, and no other row. In the
  store: a future row (ids being unique) gets its publish job, and the jobs of an id
  that no future row carries are left as they were.
\<close>

theorem scheduleFutureDilemmas_exactly_future:
  "scheduleFutureDilemmas now (Inr rows) q =
     (Inr (), fold (\<lambda>d. scheduleDilemma now (dilemma_id d) (publishDate d) (revealTime d))
                (findMany_future now rows) q)
   \<and> count_list (findMany_future now rows) d = (if publishDate d > now then count_list rows d else 0)
   \<and> (distinct (map dilemma_id rows) \<and> d \<in> set rows \<and> publishDate d > now \<longrightarrow>
        jobs_with_id (publishJobId (dilemma_id d)) (snd (scheduleFutureDilemmas now (Inr rows) q)) =
          [\<lparr>jobId = publishJobId (dilemma_id d), name = ''publish'', dilemmaId = dilemma_id d,
            notBefore = publishDate d, state = Pending, attempts = 0\<rparr>]
        \<and> jobs_with_id (revealJobId (dilemma_id d)) (snd (scheduleFutureDilemmas now (Inr rows) q)) =
          (if 0 < revealTime d - now
           then [\<lparr>jobId = revealJobId (dilemma_id d), name = ''reveal'', dilemmaId = dilemma_id d,
                  notBefore = revealTime d, state = Pending, attempts = 0\<rparr>]
           else jobs_with_id (revealJobId (dilemma_id d)) q))
   \<and> (dilemma_id d \<notin> dilemma_id ` {x \<in> set rows. publishDate x > now} \<longrightarrow>
        jobs_with_id (publishJobId (dilemma_id d)) (snd (scheduleFutureDilemmas now (Inr rows) q)) =
          jobs_with_id (publishJobId (dilemma_id d)) q
        \<and> jobs_with_id (revealJobId (dilemma_id d)) (snd (scheduleFutureDilemmas now (Inr rows) q)) =
          jobs_with_id (revealJobId (dilemma_id d)) q)"
proof -
  let ?f = "\<lambda>d. scheduleDilemma now (dilemma_id d) (publishDate d) (revealTime d)"
  let ?q' = "snd (scheduleFutureDilemmas now (Inr rows) q)"
  have run: "scheduleFutureDilemmas now (Inr rows) q = (Inr (), fold ?f (findMany_future now rows) q)"
    by (simp add: scheduleFutureDilemmas_def)
  have cnt: "count_list (findMany_future now rows) d =
      (if publishDate d > now then count_list rows d else 0)"
    by (simp add: findMany_future_def count_list_sort_key count_list_filter)
  have fut: "jobs_with_id (publishJobId (dilemma_id d)) ?q' =
          [\<lparr>jobId = publishJobId (dilemma_id d), name = ''publish'', dilemmaId = dilemma_id d,
            notBefore = publishDate d, state = Pending, attempts = 0\<rparr>]
        \<and> jobs_with_id (revealJobId (dilemma_id d)) ?q' =
          (if 0 < revealTime d - now
           then [\<lparr>jobId = revealJobId (dilemma_id d), name = ''reveal'', dilemmaId = dilemma_id d,
                  notBefore = revealTime d, state = Pending, attempts = 0\<rparr>]
           else jobs_with_id (revealJobId (dilemma_id d)) q)"
    if h: "distinct (map dilemma_id rows) \<and> d \<in> set rows \<and> publishDate d > now"
  proof -
    from h have dist: "distinct (map dilemma_id (findMany_future now rows))"
      by (simp add: findMany_future_distinct)
    from h have mem: "d \<in> set (findMany_future now rows)"
      by (simp add: findMany_future_set)
    from h have pos: "0 < publishDate d - now" by simp
    show ?thesis
      using fold_schedule_publish [OF dist mem, of now q] fold_schedule_reveal [OF dist mem, of now q] pos
      by (simp add: run)
  qed
  have past: "jobs_with_id (publishJobId (dilemma_id d)) ?q' =
          jobs_with_id (publishJobId (dilemma_id d)) q
        \<and> jobs_with_id (revealJobId (dilemma_id d)) ?q' =
          jobs_with_id (revealJobId (dilemma_id d)) q"
    if h: "dilemma_id d \<notin> dilemma_id ` {x \<in> set rows. publishDate x > now}"
  proof -
    from h have ne: "\<forall>x \<in> set (findMany_future now rows). dilemma_id x \<noteq> dilemma_id d"
      unfolding findMany_future_set by (metis imageI)
    have "\<forall>x \<in> set (findMany_future now rows).
        publishJobId (dilemma_id d) \<noteq> publishJobId (dilemma_id x) \<and>
        publishJobId (dilemma_id d) \<noteq> revealJobId (dilemma_id x)"
      using ne by (auto simp add: publishJobId_inj publish_neq_reveal)
    moreover have "\<forall>x \<in> set (findMany_future now rows).
        revealJobId (dilemma_id d) \<noteq> publishJobId (dilemma_id x) \<and>
        revealJobId (dilemma_id d) \<noteq> revealJobId (dilemma_id x)"
      using ne by (auto simp add: revealJobId_inj publish_neq_reveal [symmetric])
    ultimately show ?thesis
      by (simp add: run fold_schedule_untouched)
  qed
  from run cnt fut past show ?thesis by blast
qed


theorem scheduleFutureDilemmas_exactly_future_witness:
  "scheduleFutureDilemmas 1000
     (Inr [\<lparr>dilemma_id = ''I1'', publishDate = 500, revealTime = 5000\<rparr>,
           \<lparr>dilemma_id = ''I2'', publishDate = 2000, revealTime = 6000\<rparr>]) [] =
     (Inr (), scheduleDilemma 1000 ''I2'' 2000 6000 [])
   \<and> jobs_with_id (publishJobId ''I2'')
       (snd (scheduleFutureDilemmas 1000
         (Inr [\<lparr>dilemma_id = ''I1'', publishDate = 500, revealTime = 5000\<rparr>,
               \<lparr>dilemma_id = ''I2'', publishDate = 2000, revealTime = 6000\<rparr>]) [])) =
     [\<lparr>jobId = publishJobId ''I2'', name = ''publish'', dilemmaId = ''I2'',
       notBefore = 2000, state = Pending, attempts = 0\<rparr>]
   \<and> jobs_with_id (revealJobId ''I1'')
       (snd (scheduleFutureDilemmas 1000
         (Inr [\<lparr>dilemma_id = ''I1'', publishDate = 500, revealTime = 5000\<rparr>,
               \<lparr>dilemma_id = ''I2'', publishDate = 2000, revealTime = 6000\<rparr>]) [])) = []"
proof -
  let ?rows = "[\<lparr>dilemma_id = ''I1'', publishDate = 500, revealTime = 5000\<rparr>,
                \<lparr>dilemma_id = ''I2'', publishDate = 2000, revealTime = 6000\<rparr>]"
  let ?d = "\<lparr>dilemma_id = ''I2'', publishDate = 2000, revealTime = 6000\<rparr>"
  note t = scheduleFutureDilemmas_exactly_future [of 1000 ?rows "[]" ?d]
  have h: "distinct (map dilemma_id ?rows) \<and> ?d \<in> set ?rows \<and> publishDate ?d > 1000"
    by simp
  have f: "findMany_future 1000 ?rows = [?d]"
    by (simp add: findMany_future_def)
  have a: "scheduleFutureDilemmas 1000 (Inr ?rows) [] =
      (Inr (), scheduleDilemma 1000 ''I2'' 2000 6000 [])"
    using t [THEN conjunct1] by (simp only: f fold_simps id_apply o_apply dilemma.simps)
  have b: "jobs_with_id (publishJobId ''I2'')
       (snd (scheduleFutureDilemmas 1000 (Inr ?rows) [])) =
     [\<lparr>jobId = publishJobId ''I2'', name = ''publish'', dilemmaId = ''I2'',
       notBefore = 2000, state = Pending, attempts = 0\<rparr>]"
    using t [THEN conjunct2, THEN conjunct2, THEN conjunct1, THEN mp, OF h, THEN conjunct1]
    by (simp only: dilemma.simps)
  let ?p = "\<lparr>dilemma_id = ''I1'', publishDate = 500, revealTime = 5000\<rparr>"
  note u = scheduleFutureDilemmas_exactly_future [of 1000 ?rows "[]" ?p]
  have g: "dilemma_id ?p \<notin> dilemma_id ` {x \<in> set ?rows. publishDate x > 1000}"
    by auto
  have c: "jobs_with_id (revealJobId ''I1'')
       (snd (scheduleFutureDilemmas 1000 (Inr ?rows) [])) = []"
    using u [THEN conjunct2, THEN conjunct2, THEN conjunct2, THEN mp, OF g, THEN conjunct2]
    by (simp add: jobs_with_id_def)
  from a b c show ?thesis by (intro conjI)
qed

text \<open>The daily worker runs the startup recovery, and lets a database error through.\<close>

lemma daily_scheduler_worker_runs_recovery:
  "daily_scheduler_worker now table q = scheduleFutureDilemmas now table q
   \<and> scheduleFutureDilemmas now (Inl e) q = (Inl e, q)"
  by (simp add: daily_scheduler_worker_def scheduleFutureDilemmas_def)

subsection \<open>Retry policy\<close>

text \<open>
  Claim C2. When an execution attempt of an active job fails, the attempt count goes
  up by one; if the new count is below \<open>maxAttempts = 3\<close> the job is \<open>Pending\<close> again
  and due \<open>2000 * 2^(attempts - 1)\<close> milliseconds after the failure; if the new count
  is 3 or more the job is \<open>Failed\<close>, and whatever the workers do afterwards (claim,
  complete, fail) it stays as it is: it is never run again.
\<close>

theorem retry_backoff_then_terminal_failure:
  "queue_getJob k q = Some j \<Longrightarrow> state j = Active \<Longrightarrow>
     maxAttempts = 3 \<and> backoffDelay = 2000
   \<and> (attempts j + 1 < maxAttempts \<longrightarrow>
        retryPolicy (attempts j + 1) = Retry (2000 * 2 ^ (attempts j + 1 - 1))
        \<and> queue_getJob k (JobStore_fail now k q) =
            Some (j\<lparr>attempts := attempts j + 1, state := Pending,
                    notBefore := now + 2000 * 2 ^ (attempts j + 1 - 1)\<rparr>))
   \<and> (maxAttempts \<le> attempts j + 1 \<longrightarrow>
        retryPolicy (attempts j + 1) = GiveUp
        \<and> queue_getJob k (JobStore_fail now k q) =
            Some (j\<lparr>attempts := attempts j + 1, state := Failed\<rparr>)
        \<and> (\<forall>evs. queue_getJob k (fold worker_step evs (JobStore_fail now k q)) =
                   Some (j\<lparr>attempts := attempts j + 1, state := Failed\<rparr>)))"
proof -
  assume g: "queue_getJob k q = Some j" and act: "state j = Active"
  have f: "queue_getJob k (JobStore_fail now k q) = Some (fail_job now j)"
    using g by (rule queue_getJob_fail)
  have c: "maxAttempts = 3 \<and> backoffDelay = 2000"
    by (simp add: maxAttempts_def backoffDelay_def)
  have r: "retryPolicy (attempts j + 1) = Retry (2000 * 2 ^ (attempts j + 1 - 1))
        \<and> queue_getJob k (JobStore_fail now k q) =
            Some (j\<lparr>attempts := attempts j + 1, state := Pending,
                    notBefore := now + 2000 * 2 ^ (attempts j + 1 - 1)\<rparr>)"
    if "attempts j + 1 < maxAttempts"
    using that act by (simp add: f fail_job_def retryPolicy_def backoffDelay_def)
  have t: "retryPolicy (attempts j + 1) = GiveUp
        \<and> queue_getJob k (JobStore_fail now k q) =
            Some (j\<lparr>attempts := attempts j + 1, state := Failed\<rparr>)
        \<and> (\<forall>evs. queue_getJob k (fold worker_step evs (JobStore_fail now k q)) =
                   Some (j\<lparr>attempts := attempts j + 1, state := Failed\<rparr>))"
    if h: "maxAttempts \<le> attempts j + 1"
  proof -
    have p: "retryPolicy (attempts j + 1) = GiveUp"
      using h by (simp add: retryPolicy_def)
    have fj: "fail_job now j = j\<lparr>attempts := attempts j + 1, state := Failed\<rparr>"
      using act p by (simp add: fail_job_def)
    have s: "queue_getJob k (JobStore_fail now k q) =
        Some (j\<lparr>attempts := attempts j + 1, state := Failed\<rparr>)"
      using f fj by simp
    have "queue_getJob k (fold worker_step evs (JobStore_fail now k q)) =
        Some (j\<lparr>attempts := attempts j + 1, state := Failed\<rparr>)" for evs
      using s by (rule failed_is_terminal) simp
    with p s show ?thesis by blast
  qed
  from c r t show ?thesis by blast
qed

theorem retry_backoff_then_terminal_failure_witness:
  "queue_getJob ''reveal-I1''
     (JobStore_fail 100000 ''reveal-I1''
        [\<lparr>jobId = ''reveal-I1'', name = ''reveal'', dilemmaId = ''I1'', notBefore = 90000,
          state = Active, attempts = 1\<rparr>]) =
     Some \<lparr>jobId = ''reveal-I1'', name = ''reveal'', dilemmaId = ''I1'', notBefore = 104000,
           state = Pending, attempts = 2\<rparr>
   \<and> queue_getJob ''reveal-I1''
       (fold worker_step [ClaimDue 200000 10, Fail 200001 ''reveal-I1'']
          (JobStore_fail 100000 ''reveal-I1''
             [\<lparr>jobId = ''reveal-I1'', name = ''reveal'', dilemmaId = ''I1'', notBefore = 90000,
               state = Active, attempts = 2\<rparr>])) =
     Some \<lparr>jobId = ''reveal-I1'', name = ''reveal'', dilemmaId = ''I1'', notBefore = 90000,
           state = Failed, attempts = 3\<rparr>"
proof -
  let ?j1 = "\<lparr>jobId = ''reveal-I1'', name = ''reveal'', dilemmaId = ''I1'', notBefore = 90000,
          state = Active, attempts = 1\<rparr>"
  let ?j2 = "\<lparr>jobId = ''reveal-I1'', name = ''reveal'', dilemmaId = ''I1'', notBefore = 90000,
          state = Active, attempts = 2\<rparr>"
  have g1: "queue_getJob ''reveal-I1'' [?j1] = Some ?j1" and a1: "state ?j1 = Active"
    and g2: "queue_getJob ''reveal-I1'' [?j2] = Some ?j2" and a2: "state ?j2 = Active"
    by (simp_all add: queue_getJob_def)
  note t1 = retry_backoff_then_terminal_failure [OF g1 a1, of 100000]
  note t2 = retry_backoff_then_terminal_failure [OF g2 a2, of 100000]
  have "queue_getJob ''reveal-I1'' (JobStore_fail 100000 ''reveal-I1'' [?j1]) =
     Some \<lparr>jobId = ''reveal-I1'', name = ''reveal'', dilemmaId = ''I1'', notBefore = 104000,
           state = Pending, attempts = 2\<rparr>"
    using t1 [THEN conjunct2, THEN conjunct2, THEN conjunct1] by (simp add: maxAttempts_def)
  moreover have "queue_getJob ''reveal-I1''
       (fold worker_step [ClaimDue 200000 10, Fail 200001 ''reveal-I1'']
          (JobStore_fail 100000 ''reveal-I1'' [?j2])) =
     Some \<lparr>jobId = ''reveal-I1'', name = ''reveal'', dilemmaId = ''I1'', notBefore = 90000,
           state = Failed, attempts = 3\<rparr>"
    using t2 [THEN conjunct2, THEN conjunct2, THEN conjunct2, THEN mp, THEN conjunct2,
        THEN conjunct2, THEN spec, of "[ClaimDue 200000 10, Fail 200001 ''reveal-I1'']"]
    by (simp add: maxAttempts_def)
  ultimately show ?thesis by (rule conjI)
qed

subsection \<open>The cache service and the workers\<close>

text \<open>
  Claim C6, as amended. The reveal worker first runs \<^verbatim>\<open>CacheService.delPattern\<close> on
  \<open>stats:*:<id>*\<close>, which deletes the keys the cache store reports for the pattern,
  then runs \<^verbatim>\<open>precalculateStats\<close>, which stores the aggregate under
  \<open>stats:global:<id>\<close> for 3600 seconds. A failure inside either step is caught inside
  that step: the worker returns normally whatever the cache store and the database do,
  and the second step runs on whatever the first one left.
\<close>

theorem reveal_worker_swallows_failures:
  "reveal_worker env did w =
     (Inr (), snd (precalculateStats env did
                (snd (CacheService_delPattern env (''stats:*:'' @ did @ ''*'') w))))
   \<and> (fst (redis_keys env (''stats:*:'' @ did @ ''*'') w) = Inr ks \<longrightarrow>
        snd (CacheService_delPattern env (''stats:*:'' @ did @ ''*'') w) =
          (if length ks > 0
           then snd (redis_del env ks (snd (redis_keys env (''stats:*:'' @ did @ ''*'') w)))
           else snd (redis_keys env (''stats:*:'' @ did @ ''*'') w)))
   \<and> (fst (redis_keys env (''stats:*:'' @ did @ ''*'') w) = Inl e \<longrightarrow>
        snd (CacheService_delPattern env (''stats:*:'' @ did @ ''*'') w) =
          snd (redis_keys env (''stats:*:'' @ did @ ''*'') w))
   \<and> (vote_count env did None = Inr totalVotes' \<and> vote_count env did (Some ''A'') = Inr votesA \<and>
        JSON_stringify env (aggregate (round_pct env) totalVotes' votesA) = Inr s \<longrightarrow>
        snd (precalculateStats env did w') =
          snd (redis_setex env (''stats:global:'' @ did) 3600 s w'))
   \<and> (vote_count env did None = Inl e' \<longrightarrow> precalculateStats env did w' = (Inr (), w'))"
proof (intro conjI impI)
  show "reveal_worker env did w =
     (Inr (), snd (precalculateStats env did
                (snd (CacheService_delPattern env (''stats:*:'' @ did @ ''*'') w))))"
    by (rule reveal_worker_sequence)
  show "snd (CacheService_delPattern env (''stats:*:'' @ did @ ''*'') w) =
          (if length ks > 0
           then snd (redis_del env ks (snd (redis_keys env (''stats:*:'' @ did @ ''*'') w)))
           else snd (redis_keys env (''stats:*:'' @ did @ ''*'') w))"
    if "fst (redis_keys env (''stats:*:'' @ did @ ''*'') w) = Inr ks"
    using that by (rule CacheService_delPattern_deletes)
  show "snd (CacheService_delPattern env (''stats:*:'' @ did @ ''*'') w) =
          snd (redis_keys env (''stats:*:'' @ did @ ''*'') w)"
    if "fst (redis_keys env (''stats:*:'' @ did @ ''*'') w) = Inl e"
    using that by (rule CacheService_delPattern_keys_fail)
  show "snd (precalculateStats env did w') =
          snd (redis_setex env (''stats:global:'' @ did) 3600 s w')"
    if h: "vote_count env did None = Inr totalVotes' \<and> vote_count env did (Some ''A'') = Inr votesA \<and>
        JSON_stringify env (aggregate (round_pct env) totalVotes' votesA) = Inr s"
  proof -
    from h have "snd (precalculateStats env did w') =
        snd (CacheService_set env (''stats:global:'' @ did)
               (aggregate (round_pct env) totalVotes' votesA) (Some 3600) w')"
      by (simp only: precalculateStats_caches aggregate_def)
    also from h have "\<dots> = snd (redis_setex env (''stats:global:'' @ did) 3600 s w')"
      by (simp add: CacheService_set_setex)
    finally show ?thesis .
  qed
  show "precalculateStats env did w' = (Inr (), w')" if "vote_count env did None = Inl e'"
    using that by (rule precalculateStats_count_fails)
qed

theorem reveal_worker_swallows_failures_witness:
  "reveal_worker
     (mem_env (\<lambda>s. Inl (Error ''SyntaxError'')) (\<lambda>st. Inr ''{}'')
        (\<lambda>did c. Inr (if c = None then 10 else 4)) (\<lambda>a b. (200 * a + b) div (2 * b)))
     ''d1''
     [(''stats:global:d1'', ''old'', Some 60), (''stats:demo:d1:f'', ''x'', None),
      (''dilemma:today'', ''t'', None)] =
   (Inr (), [(''stats:global:d1'', ''{}'', Some 3600), (''dilemma:today'', ''t'', None)])
   \<and> snd (CacheService_delPattern (down_env :: (mem, stats) env) (''stats:*:'' @ ''d1'' @ ''*'')
            [(''stats:global:d1'', ''old'', Some 60)]) = [(''stats:global:d1'', ''old'', Some 60)]
   \<and> precalculateStats (down_env :: (mem, stats) env) ''d1'' [(''stats:global:d1'', ''old'', Some 60)]
       = (Inr (), [(''stats:global:d1'', ''old'', Some 60)])"
proof -
  let ?env = "mem_env (\<lambda>s. Inl (Error ''SyntaxError'')) (\<lambda>st. Inr ''{}'')
        (\<lambda>did c. Inr (if c = None then 10 else 4)) (\<lambda>a b. (200 * a + b) div (2 * b))
        :: (mem, stats) env"
  let ?w = "[(''stats:global:d1'', ''old'', Some 60), (''stats:demo:d1:f'', ''x'', None),
      (''dilemma:today'', ''t'', None)]"
  let ?ks = "[''stats:global:d1'', ''stats:demo:d1:f'']"
  note t = reveal_worker_swallows_failures [of ?env "''d1''" ?w ?ks "Error ''e''" 10 4 "''{}''"
      "[(''dilemma:today'', ''t'', None)]" "Error ''e''"]
  have keys: "redis_keys ?env (''stats:*:'' @ ''d1'' @ ''*'') ?w = (Inr ?ks, ?w)"
    by (simp add: mem_env_def)
  have del: "snd (CacheService_delPattern ?env (''stats:*:'' @ ''d1'' @ ''*'') ?w) =
      [(''dilemma:today'', ''t'', None)]"
    using t [THEN conjunct2, THEN conjunct1] by (simp add: keys) (simp add: mem_env_def)
  have cnt: "vote_count ?env ''d1'' None = Inr 10 \<and> vote_count ?env ''d1'' (Some ''A'') = Inr 4 \<and>
        JSON_stringify ?env (aggregate (round_pct ?env) 10 4) = Inr ''{}''"
    by (simp add: mem_env_def)
  have pre: "snd (precalculateStats ?env ''d1'' [(''dilemma:today'', ''t'', None)]) =
      [(''stats:global:d1'', ''{}'', Some 3600), (''dilemma:today'', ''t'', None)]"
    using t [THEN conjunct2, THEN conjunct2, THEN conjunct2, THEN conjunct1, THEN mp, OF cnt]
    by (simp add: mem_env_def mem_put_def)
  have up: "reveal_worker ?env ''d1'' ?w =
      (Inr (), [(''stats:global:d1'', ''{}'', Some 3600), (''dilemma:today'', ''t'', None)])"
    using t [THEN conjunct1] by (simp only: del pre)
  let ?down = "down_env :: (mem, stats) env"
  let ?w0 = "[(''stats:global:d1'', ''old'', Some 60)]"
  note d = reveal_worker_swallows_failures [of ?down "''d1''" ?w0 "[]" "Error ''ECONNREFUSED''" 0 0
      "[]" ?w0 "Error ''PrismaClientKnownRequestError''"]
  have cf: "vote_count ?down ''d1'' None = Inl (Error ''PrismaClientKnownRequestError'')"
    by (simp add: down_env_def)
  have dd: "snd (CacheService_delPattern ?down (''stats:*:'' @ ''d1'' @ ''*'') ?w0) = ?w0"
    using d [THEN conjunct2, THEN conjunct2, THEN conjunct1] by (simp add: down_env_def throwE_def)
  have dp: "precalculateStats ?down ''d1'' ?w0 = (Inr (), ?w0)"
    using d [THEN conjunct2, THEN conjunct2, THEN conjunct2, THEN conjunct2, THEN mp, OF cf] .
  from up dd dp show ?thesis by (intro conjI)
qed

text \<open>
  With the cache store and the database down, both steps of the reveal worker fail
  inside, the stale entry stays in the cache, and the worker still returns normally: the
  job is not failed.
\<close>

theorem reveal_worker_failure_counterexample:
  "fst (redis_keys (down_env :: (mem, stats) env) (''stats:*:'' @ ''d1'' @ ''*'')
          [(''stats:global:d1'', ''old'', Some 60)]) = Inl (Error ''ECONNREFUSED'')
   \<and> vote_count (down_env :: (mem, stats) env) ''d1'' None
       = Inl (Error ''PrismaClientKnownRequestError'')
   \<and> reveal_worker (down_env :: (mem, stats) env) ''d1'' [(''stats:global:d1'', ''old'', Some 60)]
       = (Inr (), [(''stats:global:d1'', ''old'', Some 60)])"
  by (simp add: down_env_def reveal_worker_def precalculateStats_def cache_defs effect_defs)

text \<open>
  Claim C9. No operation of \<^verbatim>\<open>CacheService\<close> throws, whatever the cache client and the
  JSON functions do: \<open>get\<close> returns \<^verbatim>\<open>null\<close> when the client or the parser throws,
  \<open>set\<close>, \<open>del\<close> and \<open>delPattern\<close> return normally, \<open>exists\<close> returns a boolean.
  Hence the publish worker and the reveal worker, the two workers that call
  \<^verbatim>\<open>CacheService\<close>, return normally whatever the cache store does.
\<close>

theorem CacheService_never_throws:
  "(\<exists>r. fst (CacheService_get env key w) = Inr r)
   \<and> (fst (redis_get env key w) = Inl e \<longrightarrow> fst (CacheService_get env key w) = Inr None)
   \<and> (fst (redis_get env key w) = Inr (Some c) \<and> c \<noteq> [] \<and> JSON_parse env c = Inl e \<longrightarrow>
        fst (CacheService_get env key w) = Inr None)
   \<and> fst (CacheService_set env key val expirationSeconds w) = Inr ()
   \<and> fst (CacheService_del env keys w) = Inr ()
   \<and> fst (CacheService_delPattern env pattern w) = Inr ()
   \<and> (\<exists>b. fst (CacheService_exists env key w) = Inr b)
   \<and> fst (publish_worker env did w) = Inr ()
   \<and> fst (reveal_worker env' did w') = Inr ()"
proof (intro conjI impI)
  show "\<exists>r. fst (CacheService_get env key w) = Inr r"
    by (rule CacheService_get_total)
  show "fst (CacheService_get env key w) = Inr None" if "fst (redis_get env key w) = Inl e"
    using that by (rule CacheService_get_null_on_error)
  show "fst (CacheService_get env key w) = Inr None"
    if "fst (redis_get env key w) = Inr (Some c) \<and> c \<noteq> [] \<and> JSON_parse env c = Inl e"
    using that by (simp add: CacheService_get_null_on_parse_error)
  show "fst (CacheService_set env key val expirationSeconds w) = Inr ()"
    by (rule CacheService_set_total)
  show "fst (CacheService_del env keys w) = Inr ()"
    by (rule CacheService_del_total)
  show "fst (CacheService_delPattern env pattern w) = Inr ()"
    by (rule CacheService_delPattern_total)
  show "\<exists>b. fst (CacheService_exists env key w) = Inr b"
    by (rule CacheService_exists_total)
  show "fst (publish_worker env did w) = Inr ()"
    by (rule publish_worker_total)
  show "fst (reveal_worker env' did w') = Inr ()"
    by (simp add: reveal_worker_sequence)
qed

theorem CacheService_never_throws_witness:
  "fst (redis_get (down_env :: (mem, stats) env) ''dilemma:today'' []) = Inl (Error ''ECONNREFUSED'')
   \<and> fst (CacheService_get (down_env :: (mem, stats) env) ''dilemma:today'' []) = Inr None
   \<and> fst (CacheService_del (down_env :: (mem, stats) env) [''dilemma:today''] []) = Inr ()
   \<and> fst (publish_worker (down_env :: (mem, stats) env) ''d1'' []) = Inr ()
   \<and> fst (CacheService_get
            (mem_env (\<lambda>s. Inl (Error ''SyntaxError'')) (\<lambda>st. Inr ''{}'')
               (\<lambda>did c. Inr 0) (\<lambda>a b. 0) :: (mem, stats) env)
            ''k'' [(''k'', ''not json'', None)]) = Inr None"
proof -
  note t = CacheService_never_throws [of "down_env :: (mem, stats) env" "''dilemma:today''" "[]"
      "Error ''ECONNREFUSED''" "''x''" undefined None "[''dilemma:today'']" "''p''" "''d1''"
      "down_env :: (mem, stats) env" "[]"]
  have h: "fst (redis_get (down_env :: (mem, stats) env) ''dilemma:today'' [])
      = Inl (Error ''ECONNREFUSED'')"
    by (simp add: down_env_def throwE_def)
  let ?env = "mem_env (\<lambda>s. Inl (Error ''SyntaxError'')) (\<lambda>st. Inr ''{}'')
               (\<lambda>did c. Inr 0) (\<lambda>a b. 0) :: (mem, stats) env"
  note u = CacheService_never_throws [of ?env "''k''" "[(''k'', ''not json'', None)]"
      "Error ''SyntaxError''" "''not json''" undefined None "[]" "''p''" "''d1''" ?env "[]"]
  have g: "fst (redis_get ?env ''k'' [(''k'', ''not json'', None)]) = Inr (Some ''not json'') \<and>
      ''not json'' \<noteq> [] \<and> JSON_parse ?env ''not json'' = Inl (Error ''SyntaxError'')"
    by (simp add: mem_env_def)
  have p: "fst (CacheService_get ?env ''k'' [(''k'', ''not json'', None)]) = Inr None"
    using u [THEN conjunct2, THEN conjunct2, THEN conjunct1, THEN mp, OF g] .
  from t h p show ?thesis by blast
qed

text \<open>
  Claim C10. From the same two vote counts, \<^verbatim>\<open>precalculateStats\<close> caches and
  \<^verbatim>\<open>getGlobalStats\<close> (on a cache miss) returns and caches the same aggregate, the one
  the claim describes, under the same key \<open>stats:global:<id>\<close>; the first with a time
  to live of 3600 seconds, the second of 60.
\<close>

theorem precalculateStats_same_aggregate:
  "vote_count env did None = Inr totalVotes' \<Longrightarrow> vote_count env did (Some ''A'') = Inr votesA \<Longrightarrow>
     snd (precalculateStats env did w) =
       snd (CacheService_set env (CACHE_KEYS_STATS_GLOBAL did)
              (aggregate (round_pct env) totalVotes' votesA) (Some 3600) w)
     \<and> (fst (CacheService_get env (CACHE_KEYS_STATS_GLOBAL did) w) = Inr None \<longrightarrow>
          getGlobalStats env did w =
            (Inr (aggregate (round_pct env) totalVotes' votesA),
             snd (CacheService_set env (CACHE_KEYS_STATS_GLOBAL did)
                    (aggregate (round_pct env) totalVotes' votesA) (Some CACHE_TTL_STATS)
                    (snd (CacheService_get env (CACHE_KEYS_STATS_GLOBAL did) w)))))
     \<and> (JSON_stringify env (aggregate (round_pct env) totalVotes' votesA) = Inr s \<longrightarrow>
          snd (CacheService_set env (CACHE_KEYS_STATS_GLOBAL did)
                 (aggregate (round_pct env) totalVotes' votesA) (Some 3600) w) =
            snd (redis_setex env (CACHE_KEYS_STATS_GLOBAL did) 3600 s w)
          \<and> snd (CacheService_set env (CACHE_KEYS_STATS_GLOBAL did)
                 (aggregate (round_pct env) totalVotes' votesA) (Some CACHE_TTL_STATS) w') =
            snd (redis_setex env (CACHE_KEYS_STATS_GLOBAL did) CACHE_TTL_STATS s w'))
     \<and> CACHE_KEYS_STATS_GLOBAL did = ''stats:global:'' @ did
     \<and> totalVotes (aggregate (round_pct env) totalVotes' votesA) = totalVotes'
     \<and> count (choiceA (aggregate (round_pct env) totalVotes' votesA)) = votesA
     \<and> count (choiceB (aggregate (round_pct env) totalVotes' votesA)) = totalVotes' - votesA
     \<and> percentage (choiceA (aggregate (round_pct env) totalVotes' votesA)) =
         (if totalVotes' > 0 then round_pct env votesA totalVotes' else 0)
     \<and> percentage (choiceB (aggregate (round_pct env) totalVotes' votesA)) =
         (if totalVotes' > 0 then round_pct env (totalVotes' - votesA) totalVotes' else 0)"
proof (intro conjI impI)
  assume c: "vote_count env did None = Inr totalVotes'" "vote_count env did (Some ''A'') = Inr votesA"
  show "snd (precalculateStats env did w) =
       snd (CacheService_set env (CACHE_KEYS_STATS_GLOBAL did)
              (aggregate (round_pct env) totalVotes' votesA) (Some 3600) w)"
    using c by (simp only: precalculateStats_caches aggregate_def CACHE_KEYS_STATS_GLOBAL_def)
  show "getGlobalStats env did w =
            (Inr (aggregate (round_pct env) totalVotes' votesA),
             snd (CacheService_set env (CACHE_KEYS_STATS_GLOBAL did)
                    (aggregate (round_pct env) totalVotes' votesA) (Some CACHE_TTL_STATS)
                    (snd (CacheService_get env (CACHE_KEYS_STATS_GLOBAL did) w))))"
    if "fst (CacheService_get env (CACHE_KEYS_STATS_GLOBAL did) w) = Inr None"
    using that c by (simp only: getGlobalStats_miss aggregate_def)
  show "snd (CacheService_set env (CACHE_KEYS_STATS_GLOBAL did)
                 (aggregate (round_pct env) totalVotes' votesA) (Some 3600) w) =
            snd (redis_setex env (CACHE_KEYS_STATS_GLOBAL did) 3600 s w)"
    if "JSON_stringify env (aggregate (round_pct env) totalVotes' votesA) = Inr s"
    using that by (simp add: CacheService_set_setex)
  show "snd (CacheService_set env (CACHE_KEYS_STATS_GLOBAL did)
                 (aggregate (round_pct env) totalVotes' votesA) (Some CACHE_TTL_STATS) w') =
            snd (redis_setex env (CACHE_KEYS_STATS_GLOBAL did) CACHE_TTL_STATS s w')"
    if "JSON_stringify env (aggregate (round_pct env) totalVotes' votesA) = Inr s"
    using that by (simp add: CacheService_set_setex CACHE_TTL_STATS_def)
  show "CACHE_KEYS_STATS_GLOBAL did = ''stats:global:'' @ did"
    by (simp add: CACHE_KEYS_STATS_GLOBAL_def)
qed (simp_all add: aggregate_def)

theorem precalculateStats_same_aggregate_witness:
  "snd (precalculateStats
          (mem_env (\<lambda>s. Inl (Error ''SyntaxError'')) (\<lambda>st. Inr ''{}'')
             (\<lambda>did c. Inr (if c = None then 10 else 4)) (\<lambda>a b. (200 * a + b) div (2 * b)))
          ''d1'' []) =
     [(''stats:global:d1'', ''{}'', Some 3600)]
   \<and> getGlobalStats
        (mem_env (\<lambda>s. Inl (Error ''SyntaxError'')) (\<lambda>st. Inr ''{}'')
           (\<lambda>did c. Inr (if c = None then 10 else 4)) (\<lambda>a b. (200 * a + b) div (2 * b)))
        ''d1'' [] =
     (Inr \<lparr>totalVotes = 10, choiceA = \<lparr>count = 4, percentage = 40\<rparr>,
           choiceB = \<lparr>count = 6, percentage = 60\<rparr>\<rparr>,
      [(''stats:global:d1'', ''{}'', Some 60)])"
proof -
  let ?env = "mem_env (\<lambda>s. Inl (Error ''SyntaxError'')) (\<lambda>st. Inr ''{}'')
        (\<lambda>did c. Inr (if c = None then 10 else 4)) (\<lambda>a b. (200 * a + b) div (2 * b))
        :: (mem, stats) env"
  have c1: "vote_count ?env ''d1'' None = Inr 10" and c2: "vote_count ?env ''d1'' (Some ''A'') = Inr 4"
    by (simp_all add: mem_env_def)
  note t = precalculateStats_same_aggregate [OF c1 c2, of "[]" "''{}''" "[]"]
  have miss: "CacheService_get ?env (CACHE_KEYS_STATS_GLOBAL ''d1'') [] = (Inr None, [])"
    by (simp add: mem_env_def CacheService_get_def effect_defs)
  have str: "JSON_stringify ?env (aggregate (round_pct ?env) 10 4) = Inr ''{}''"
    by (simp add: mem_env_def)
  have agg: "aggregate (round_pct ?env) 10 4 =
      \<lparr>totalVotes = 10, choiceA = \<lparr>count = 4, percentage = 40\<rparr>,
       choiceB = \<lparr>count = 6, percentage = 60\<rparr>\<rparr>"
    by (simp add: aggregate_def mem_env_def)
  have setex: "redis_setex ?env (CACHE_KEYS_STATS_GLOBAL ''d1'') n ''{}'' [] =
      (Inr (), [(''stats:global:d1'', ''{}'', Some n)])" for n
    by (simp add: mem_env_def mem_put_def CACHE_KEYS_STATS_GLOBAL_def)
  note u = t [THEN conjunct2, THEN conjunct2, THEN conjunct1, THEN mp, OF str]
  have s1: "snd (CacheService_set ?env (CACHE_KEYS_STATS_GLOBAL ''d1'')
                 (aggregate (round_pct ?env) 10 4) (Some 3600) []) =
        [(''stats:global:d1'', ''{}'', Some 3600)]"
    using u [THEN conjunct1] by (simp only: setex snd_conv)
  have s2: "snd (CacheService_set ?env (CACHE_KEYS_STATS_GLOBAL ''d1'')
                 (aggregate (round_pct ?env) 10 4) (Some CACHE_TTL_STATS) []) =
        [(''stats:global:d1'', ''{}'', Some 60)]"
    using u [THEN conjunct2] by (simp only: setex snd_conv) (simp add: CACHE_TTL_STATS_def)
  have a: "snd (precalculateStats ?env ''d1'' []) = [(''stats:global:d1'', ''{}'', Some 3600)]"
    using t [THEN conjunct1] by (simp only: s1)
  have b: "getGlobalStats ?env ''d1'' [] =
     (Inr \<lparr>totalVotes = 10, choiceA = \<lparr>count = 4, percentage = 40\<rparr>,
           choiceB = \<lparr>count = 6, percentage = 60\<rparr>\<rparr>,
      [(''stats:global:d1'', ''{}'', Some 60)])"
  proof -
    have m: "fst (CacheService_get ?env (CACHE_KEYS_STATS_GLOBAL ''d1'') []) = Inr None"
      by (simp only: miss fst_conv)
    note v = t [THEN conjunct2, THEN conjunct1, THEN mp, OF m]
    from v [unfolded miss snd_conv s2] show ?thesis by (simp only: agg)
  qed
  from a b show ?thesis by (rule conjI)
qed

end
